theory Spec2Isabelle
  imports Complex_Main "HOL-Library.AList"
begin

section \<open>The GraphQL WebSocket client (channels\_graphql\_ws/client.py)\<close>

text \<open>
  A shallow embedding of the class \<^verbatim>\<open>GraphqlWsClient\<close>. Every coroutine of the class is a
  function from the state of the world before the call to an outcome and the state after
  it. The client keeps no state of its own besides the transport it was given.
\<close>

subsection \<open>Values\<close>

text \<open>
  Messages are decoded JSON: a Python \<^verbatim>\<open>dict\<close> with string keys is an association list
  read with \<^const>\<open>map_of\<close> and written with \<^const>\<open>AList.update\<close>; \<^verbatim>\<open>None\<close> is \<open>JNull\<close>.
  Numbers are integers: the client never computes with a number of a message.
\<close>

datatype json =
    JNull
  | JBool bool
  | JNum int
  | JStr string
  | JList "json list"
  | JDict "(string \<times> json) list"

type_synonym message = "(string \<times> json) list"

text \<open>
  The exceptions a call of the client can end with. \<open>GraphqlWsResponseError response errors\<close>
  is the exception class of the module with its two attributes. \<open>TimeoutError\<close> is
  \<^verbatim>\<open>asyncio.TimeoutError\<close>; \<open>TransportError\<close> is any other fault of the transport.
\<close>

datatype exn =
    KeyError string
  | TypeError
  | AssertionError
  | TimeoutError
  | TransportError string
  | GraphqlWsResponseError json json

text \<open>
  A call returns a value, raises, or never returns (\<open>Suspends\<close>: the coroutine awaits a
  message that never comes).
\<close>

datatype 'a outcome = Returns 'a | Raises exn | Suspends

subsection \<open>Python operators on decoded JSON\<close>

text \<open>\<^verbatim>\<open>s.startswith(p)\<close> and \<^verbatim>\<open>p in s\<close> on strings.\<close>

fun startswith :: "string \<Rightarrow> string \<Rightarrow> bool" where
  "startswith s [] = True"
| "startswith [] (p # ps) = False"
| "startswith (c # s) (p # ps) = (c = p \<and> startswith s ps)"

fun str_contains :: "string \<Rightarrow> string \<Rightarrow> bool" where
  "str_contains [] p = (p = [])"
| "str_contains (c # s) p = (startswith (c # s) p \<or> str_contains s p)"

text \<open>
  \<^verbatim>\<open>key in value\<close> for a string \<open>key\<close>: membership of the key for a dict, of the element
  for a list, the substring test for a string; the other values are not containers and
  the operator raises \<^verbatim>\<open>TypeError\<close>.
\<close>

fun py_contains :: "string \<Rightarrow> json \<Rightarrow> exn + bool" where
  "py_contains key (JDict d) = Inr (map_of d key \<noteq> None)"
| "py_contains key (JList xs) = Inr (JStr key \<in> set xs)"
| "py_contains key (JStr s) = Inr (str_contains s key)"
| "py_contains key JNull = Inl TypeError"
| "py_contains key (JBool b) = Inl TypeError"
| "py_contains key (JNum n) = Inl TypeError"

text \<open>
  \<^verbatim>\<open>value[key]\<close> for a string \<open>key\<close>: the lookup of a dict raises \<^verbatim>\<open>KeyError\<close> on a missing
  key; a list and a string take integer indices only; the other values have no subscript.
\<close>

fun py_getitem :: "json \<Rightarrow> string \<Rightarrow> exn + json" where
  "py_getitem (JDict d) key = (case map_of d key of None \<Rightarrow> Inl (KeyError key) | Some v \<Rightarrow> Inr v)"
| "py_getitem v key = Inl TypeError"

text \<open>The truth value of a Python object, as \<^verbatim>\<open>or\<close> tests it.\<close>

fun py_truthy :: "json \<Rightarrow> bool" where
  "py_truthy JNull = False"
| "py_truthy (JBool b) = b"
| "py_truthy (JNum n) = (n \<noteq> 0)"
| "py_truthy (JStr s) = (s \<noteq> [])"
| "py_truthy (JList xs) = (xs \<noteq> [])"
| "py_truthy (JDict d) = (d \<noteq> [])"

subsection \<open>The transport and the identifier source\<close>

text \<open>
  Modelled from the spec: the transport (\<^verbatim>\<open>GraphqlWsTransport\<close>, module \<^verbatim>\<open>transport\<close>) is
  not part of the sources. It is the capability set of section 6 of the specification:
  \<^verbatim>\<open>connect(timeout)\<close> fails on connection failure or timeout, \<^verbatim>\<open>send(message)\<close>,
  \<^verbatim>\<open>receive()\<close> suspends until a message is available or the transport's own timeout
  elapses and then fails with a Timeout error, \<^verbatim>\<open>shutdown()\<close>. The transport here is a
  deterministic double: \<open>inbound\<close> scripts what each successive \<^verbatim>\<open>receive\<close> ends with and
  how many seconds it takes; when the script is over nothing arrives any more and
  \<^verbatim>\<open>receive\<close> stays suspended. \<open>calls\<close> logs every call of the transport in order.

  \<open>clock\<close> is the time of the monotonic clock, in seconds; what \<^verbatim>\<open>time.monotonic()\<close>
  returns is the float nearest to it (see the floats below).
  \<open>uuids n\<close> is the value of the \<open>n\<close>-th evaluation of \<^verbatim>\<open>str(uuid.uuid4().hex)\<close>
  and \<open>minted\<close> counts the evaluations so far.
\<close>

datatype event = Deliver real message | Fault real exn

datatype call = Connect real | Send message | Receive | Shutdown

record world =
  calls :: "call list"
  inbound :: "event list"
  clock :: real
  connect_fault :: "exn option"
  uuids :: "nat \<Rightarrow> string"
  minted :: nat

definition transport_connect :: "real \<Rightarrow> world \<Rightarrow> unit outcome \<times> world" where
  "transport_connect timeout s =
     (case connect_fault s of
        None \<Rightarrow> (Returns (), s\<lparr>calls := calls s @ [Connect timeout]\<rparr>)
      | Some e \<Rightarrow> (Raises e, s\<lparr>calls := calls s @ [Connect timeout]\<rparr>))"

definition transport_send :: "message \<Rightarrow> world \<Rightarrow> unit outcome \<times> world" where
  "transport_send m s = (Returns (), s\<lparr>calls := calls s @ [Send m]\<rparr>)"

definition transport_receive :: "world \<Rightarrow> message outcome \<times> world" where
  "transport_receive s =
     (case inbound s of
        [] \<Rightarrow> (Suspends, s\<lparr>calls := calls s @ [Receive]\<rparr>)
      | Deliver d m # es \<Rightarrow>
          (Returns m, s\<lparr>calls := calls s @ [Receive], inbound := es, clock := clock s + d\<rparr>)
      | Fault d e # es \<Rightarrow>
          (Raises e, s\<lparr>calls := calls s @ [Receive], inbound := es, clock := clock s + d\<rparr>))"

definition transport_shutdown :: "world \<Rightarrow> unit outcome \<times> world" where
  "transport_shutdown s = (Returns (), s\<lparr>calls := calls s @ [Shutdown]\<rparr>)"

definition uuid4_hex :: "world \<Rightarrow> string \<times> world" where
  "uuid4_hex s = (uuids s (minted s), s\<lparr>minted := Suc (minted s)\<rparr>)"

subsection \<open>Response classification\<close>

text \<open>\<^verbatim>\<open>_is_keep_alive_response\<close>: \<^verbatim>\<open>response.get("type") == "ka"\<close>.\<close>

definition is_keep_alive_response :: "message \<Rightarrow> bool" where
  "is_keep_alive_response response \<longleftrightarrow> map_of response ''type'' = Some (JStr ''ka'')"

text \<open>
  The class \<^verbatim>\<open>GraphqlWsResponseError\<close>: what evaluating
  \<^verbatim>\<open>raise GraphqlWsResponseError(message, response)\<close> raises. The constructor asserts
  \<^verbatim>\<open>"errors" in response\<close> and reads \<^verbatim>\<open>response["errors"]\<close>, so it can itself end
  with another exception. The text of the message is not kept.
\<close>

definition raise_GraphqlWsResponseError :: "json \<Rightarrow> exn" where
  "raise_GraphqlWsResponseError response =
     (case py_contains ''errors'' response of
        Inl e \<Rightarrow> e
      | Inr False \<Rightarrow> AssertionError
      | Inr True \<Rightarrow>
          (case py_getitem response ''errors'' of
             Inl e \<Rightarrow> e
           | Inr errors \<Rightarrow> GraphqlWsResponseError response errors))"

text \<open>\<^verbatim>\<open>_response_payload\<close>.\<close>

definition response_payload :: "message \<Rightarrow> json outcome" where
  "response_payload response =
     (let payload = (case map_of response ''payload'' of None \<Rightarrow> JNull | Some v \<Rightarrow> v)
      in if payload \<noteq> JNull
         then (case py_contains ''errors'' payload of
                 Inl e \<Rightarrow> Raises e
               | Inr True \<Rightarrow> Raises (raise_GraphqlWsResponseError payload)
               | Inr False \<Rightarrow> Returns payload)
         else Returns payload)"

subsection \<open>The receive loop\<close>

text \<open>
  \<^verbatim>\<open>_next_response\<close>: the \<^verbatim>\<open>while True\<close> loop. \<open>wait_id\<close> is \<open>None\<close> for Python's \<^verbatim>\<open>None\<close>.
  \<^verbatim>\<open>response["id"]\<close> is evaluated only when \<open>wait_id\<close> is set, and raises \<^verbatim>\<open>KeyError\<close> when
  the message has no \<^verbatim>\<open>id\<close>. A decoded JSON value equals a Python string exactly when it
  is that string.
\<close>

function next_response :: "string option \<Rightarrow> world \<Rightarrow> message outcome \<times> world" where
  "next_response wait_id s =
     (case transport_receive s of
        (Returns response, s') \<Rightarrow>
          if is_keep_alive_response response then next_response wait_id s'
          else (case wait_id of
                  None \<Rightarrow> (Returns response, s')
                | Some w \<Rightarrow>
                    (case map_of response ''id'' of
                       None \<Rightarrow> (Raises (KeyError ''id''), s')
                     | Some i \<Rightarrow>
                         if i = JStr w then (Returns response, s')
                         else next_response wait_id s'))
      | (Raises e, s') \<Rightarrow> (Raises e, s')
      | (Suspends, s') \<Rightarrow> (Suspends, s'))"
  by pat_completeness auto
termination
  by (relation "measure (\<lambda>(wait_id, s). length (inbound s))")
     (auto simp: transport_receive_def split: list.splits event.splits)

declare next_response.simps [simp del]

text \<open>
  Sequencing of coroutine calls: \<^verbatim>\<open>x = await f(...)\<close> followed by the rest of the body.
  An exception of the awaited call, or its never returning, ends the caller the same way.
\<close>

definition await ::
  "'a outcome \<times> world \<Rightarrow> ('a \<Rightarrow> world \<Rightarrow> 'b outcome \<times> world) \<Rightarrow> 'b outcome \<times> world" where
  "await r k =
     (case r of
        (Returns x, s') \<Rightarrow> k x s'
      | (Raises e, s') \<Rightarrow> (Raises e, s')
      | (Suspends, s') \<Rightarrow> (Suspends, s'))"

text \<open>\<^verbatim>\<open>gql_receive\<close>.\<close>

definition gql_receive :: "string option \<Rightarrow> world \<Rightarrow> json outcome \<times> world" where
  "gql_receive wait_id s =
     await (next_response wait_id s) (\<lambda>response s'. (response_payload response, s'))"

subsection \<open>Handshake\<close>

text \<open>
  \<^verbatim>\<open>gql_connect_and_init\<close>. \<open>TIMEOUT\<close> is the class attribute
  \<^verbatim>\<open>TIMEOUT = GraphqlWsTransport.TIMEOUT\<close>, a constant of the transport module, taken as a
  parameter. \<^verbatim>\<open>resp["type"]\<close> raises \<^verbatim>\<open>KeyError\<close> when the response has no \<^verbatim>\<open>type\<close>; a failed
  \<^verbatim>\<open>assert\<close> raises \<^verbatim>\<open>AssertionError\<close>.
\<close>

definition gql_connect_and_init :: "real \<Rightarrow> bool \<Rightarrow> world \<Rightarrow> unit outcome \<times> world" where
  "gql_connect_and_init TIMEOUT connect_only s =
     await (transport_connect TIMEOUT s) (\<lambda>_ s1.
       if \<not> connect_only then
         await (transport_send [(''type'', JStr ''connection_init''), (''payload'', JStr [])] s1)
           (\<lambda>_ s2.
             await (transport_receive s2) (\<lambda>resp s3.
               (case map_of resp ''type'' of
                  None \<Rightarrow> (Raises (KeyError ''type''), s3)
                | Some t \<Rightarrow>
                    if t = JStr ''connection_ack'' then (Returns (), s3)
                    else (Raises AssertionError, s3))))
       else (Returns (), s1))"

subsection \<open>Message construction\<close>

text \<open>
  The \<^verbatim>\<open>id\<close> argument of \<^verbatim>\<open>gql_send\<close>: the default \<^verbatim>\<open>AUTO\<close> sentinel, Python's \<^verbatim>\<open>None\<close>, or
  an identifier.
\<close>

datatype id_arg = AUTO | PyNone | Ident string

text \<open>
  \<^verbatim>\<open>gql_send\<close>. \<open>msg_id\<close>, \<open>msg_type\<close> and \<open>payload\<close> are the keyword arguments \<^verbatim>\<open>id\<close>,
  \<^verbatim>\<open>type\<close> and \<^verbatim>\<open>payload\<close>; \<open>msg_type = None\<close> and \<open>payload = JNull\<close> are Python's
  \<^verbatim>\<open>None\<close>. The result is the identifier, \<open>None\<close> for Python's \<^verbatim>\<open>None\<close>.
\<close>

definition gql_send ::
  "id_arg \<Rightarrow> string option \<Rightarrow> json \<Rightarrow> world \<Rightarrow> string option outcome \<times> world" where
  "gql_send msg_id msg_type payload s =
     (let (id', s1) =
            (case msg_id of
               AUTO \<Rightarrow> (let (u, s1) = uuid4_hex s in (Some u, s1))
             | PyNone \<Rightarrow> (None, s)
             | Ident i \<Rightarrow> (Some i, s));
          message = [];
          message = (case id' of Some i \<Rightarrow> AList.update ''id'' (JStr i) message | None \<Rightarrow> message);
          message = (case msg_type of Some t \<Rightarrow> AList.update ''type'' (JStr t) message
                     | None \<Rightarrow> message);
          message = (if payload \<noteq> JNull then AList.update ''payload'' payload message
                     else message)
      in await (transport_send message s1) (\<lambda>_ s2. (Returns id', s2)))"

subsection \<open>Dedenting a query\<close>

text \<open>
  \<^verbatim>\<open>textwrap.dedent\<close> of the Python standard library (the implementation with the two
  regular expressions), line by line: the text is split at newlines; a line of spaces and
  tabs only becomes empty; the margin is the longest string of spaces and tabs that starts
  every other non-empty line; the margin is removed from every line that starts with it.
\<close>

definition newline :: char where
  "newline = CHR 0x0A"

definition is_blank :: "char \<Rightarrow> bool" where
  "is_blank c \<longleftrightarrow> c = CHR '' '' \<or> c = CHR 0x09"

text \<open>\<^verbatim>\<open>text.split("\n")\<close> and \<^verbatim>\<open>"\n".join(lines)\<close>.\<close>

fun split_lines :: "string \<Rightarrow> string list" where
  "split_lines [] = [[]]"
| "split_lines (c # cs) =
     (if c = newline then [] # split_lines cs
      else (case split_lines cs of
              [] \<Rightarrow> [[c]]
            | l # ls \<Rightarrow> (c # l) # ls))"

fun join_lines :: "string list \<Rightarrow> string" where
  "join_lines [] = []"
| "join_lines [l] = l"
| "join_lines (l # l' # ls) = l @ newline # join_lines (l' # ls)"

text \<open>\<^verbatim>\<open>_whitespace_only_re.sub('', text)\<close>, on one line.\<close>

definition blank_out :: "string \<Rightarrow> string" where
  "blank_out l = (if list_all is_blank l then [] else l)"

text \<open>
  \<^verbatim>\<open>_leading_whitespace_re.findall(text)\<close>: the indentation of every line that has a
  character other than a space or a tab.
\<close>

definition indents :: "string list \<Rightarrow> string list" where
  "indents ls = map (takeWhile is_blank) (filter (\<lambda>l. \<not> list_all is_blank l) ls)"

text \<open>The \<^verbatim>\<open>for x, y in zip(margin, indent)\<close> loop: the prefix up to the first difference.\<close>

fun common_prefix :: "string \<Rightarrow> string \<Rightarrow> string" where
  "common_prefix (x # xs) (y # ys) = (if x = y then x # common_prefix xs ys else [])"
| "common_prefix xs ys = []"

text \<open>One round of the \<^verbatim>\<open>for indent in indents\<close> loop; \<open>None\<close> is \<^verbatim>\<open>margin is None\<close>.\<close>

definition margin_step :: "string option \<Rightarrow> string \<Rightarrow> string option" where
  "margin_step margin indent =
     (case margin of
        None \<Rightarrow> Some indent
      | Some m \<Rightarrow>
          if startswith indent m then Some m
          else if startswith m indent then Some indent
          else Some (common_prefix m indent))"

text \<open>\<^verbatim>\<open>re.sub(r'(?m)^' + margin, '', text)\<close>, on one line.\<close>

definition strip_margin :: "string \<Rightarrow> string \<Rightarrow> string" where
  "strip_margin margin l = (if startswith l margin then drop (length margin) l else l)"

definition dedent :: "string \<Rightarrow> string" where
  "dedent text =
     (let ls = map blank_out (split_lines text)
      in case foldl margin_step None (indents ls) of
           None \<Rightarrow> join_lines ls
         | Some margin \<Rightarrow>
             if margin \<noteq> [] then join_lines (map (strip_margin margin) ls)
             else join_lines ls)"

subsection \<open>Orchestrated operations\<close>

text \<open>
  \<^verbatim>\<open>gql_start\<close>. \<open>variables = JNull\<close> is the default \<^verbatim>\<open>None\<close>; \<^verbatim>\<open>variables or {}\<close> is the
  empty dict for every false value.
\<close>

definition gql_start :: "string \<Rightarrow> json \<Rightarrow> world \<Rightarrow> string option outcome \<times> world" where
  "gql_start query variables s =
     gql_send AUTO (Some ''start'')
       (JDict [(''query'', JStr (dedent query)),
               (''variables'', if py_truthy variables then variables else JDict [])]) s"

text \<open>\<^verbatim>\<open>gql_execute\<close>.\<close>

definition gql_execute :: "string \<Rightarrow> json \<Rightarrow> world \<Rightarrow> json outcome \<times> world" where
  "gql_execute query variables s =
     await (gql_start query variables s) (\<lambda>id' s1.
       await (gql_receive id' s1) (\<lambda>resp s2.
         await (gql_receive id' s2) (\<lambda>_ s3. (Returns resp, s3))))"

text \<open>\<^verbatim>\<open>gql_subscribe\<close>.\<close>

definition gql_subscribe ::
  "string \<Rightarrow> json \<Rightarrow> bool \<Rightarrow> world \<Rightarrow> string option outcome \<times> world" where
  "gql_subscribe query variables wait_confirmation s =
     await (gql_start query variables s) (\<lambda>id' s1.
       if wait_confirmation then await (gql_receive id' s1) (\<lambda>_ s2. (Returns id', s2))
       else (Returns id', s1))"

text \<open>\<^verbatim>\<open>gql_finalize\<close>.\<close>

definition gql_finalize :: "world \<Rightarrow> unit outcome \<times> world" where
  "gql_finalize s = transport_shutdown s"

subsection \<open>Python floats\<close>

text \<open>
  The budget of \<^verbatim>\<open>gql_wait_response\<close> and the readings of \<^verbatim>\<open>time.monotonic()\<close> are Python
  floats, and \<^verbatim>\<open>timeout -= time.monotonic() - start\<close> rounds twice. The client does three
  things with floats, and the bounded wait takes them as parameters over a type \<open>'f\<close> of
  floats that is not looked into: \<open>float_time t\<close> is the float \<^verbatim>\<open>time.monotonic()\<close> returns
  when the clock is at \<open>t\<close>, \<open>float_sub a b\<close> is \<^verbatim>\<open>a - b\<close>, and \<open>float_pos a\<close> is \<^verbatim>\<open>a > 0\<close>.
  Nothing is assumed of them, so what is proved of the loop holds for the doubles of the
  interpreter, rounding, infinities and NaN included.
\<close>

record 'f float_ops =
  float_time :: "real \<Rightarrow> 'f"
  float_sub :: "'f \<Rightarrow> 'f \<Rightarrow> 'f"
  float_pos :: "'f \<Rightarrow> bool"

text \<open>
  The floats of CPython are IEEE 754 binary64 numbers. \<open>binary64 x\<close> is the double nearest
  to the real \<open>x\<close>, ties going to the even significand: 53 bits of significand, the unit in
  the last place never below \<open>2 powi - 1074\<close>. It is the result of an operation whose exact
  result is \<open>x\<close>, as long as that is below \<open>2 powi 1024\<close> in magnitude. \<open>ieee_floats\<close> are the
  finite doubles, each taken as the real number it is.
\<close>

definition round_half_even :: "real \<Rightarrow> int" where
  "round_half_even y =
     (let f = \<lfloor>y\<rfloor>
      in if y - of_int f < 1 / 2 then f
         else if 1 / 2 < y - of_int f then f + 1
         else if even f then f else f + 1)"

definition binary64 :: "real \<Rightarrow> real" where
  "binary64 x =
     (if x = 0 then 0
      else let e = max (\<lfloor>log 2 \<bar>x\<bar>\<rfloor> - 52) (- 1074)
           in of_int (round_half_even (x / 2 powi e)) * 2 powi e)"

definition ieee_floats :: "real float_ops" where
  "ieee_floats =
     \<lparr>float_time = binary64, float_sub = (\<lambda>a b. binary64 (a - b)), float_pos = (\<lambda>a. 0 < a)\<rparr>"

subsection \<open>Bounded waiting\<close>

text \<open>
  The \<^verbatim>\<open>while timeout > 0\<close> loop of \<^verbatim>\<open>gql_wait_response\<close>, with the floats \<open>fl\<close>.
  \<open>response_checker\<close> is a total predicate. \<^verbatim>\<open>except asyncio.TimeoutError\<close> catches that exception only; any other one
  leaves the loop. The loop ends on every script: a round that neither returns nor raises
  for good has taken an event from the script.
\<close>

function gql_wait_response_loop ::
  "'f float_ops \<Rightarrow> (json \<Rightarrow> bool) \<Rightarrow> 'f \<Rightarrow> world \<Rightarrow> json outcome \<times> world" where
  "gql_wait_response_loop fl response_checker timeout s =
     (if float_pos fl timeout then
        (let start = float_time fl (clock s) in
         case gql_receive None s of
           (Returns response, s') \<Rightarrow>
             if response_checker response then (Returns response, s')
             else gql_wait_response_loop fl response_checker
                    (float_sub fl timeout (float_sub fl (float_time fl (clock s')) start)) s'
         | (Raises e, s') \<Rightarrow>
             if e = TimeoutError
             then gql_wait_response_loop fl response_checker
                    (float_sub fl timeout (float_sub fl (float_time fl (clock s')) start)) s'
             else (Raises e, s')
         | (Suspends, s') \<Rightarrow> (Suspends, s'))
      else (Raises TimeoutError, s))"
  by pat_completeness auto
termination
proof -
  have dec: "inbound s = es \<Longrightarrow> fst (next_response None s) \<noteq> Suspends \<Longrightarrow>
      length (inbound (snd (next_response None s))) < length es" for s es
  proof (induction es arbitrary: s)
    case Nil
    then show ?case
      by (simp add: next_response.simps [of None s] transport_receive_def)
  next
    case (Cons e es)
    show ?case
    proof (cases e)
      case (Deliver d m)
      let ?s1 = "s\<lparr>calls := calls s @ [Receive], inbound := es, clock := clock s + d\<rparr>"
      have unfold: "next_response None s =
          (if is_keep_alive_response m then next_response None ?s1 else (Returns m, ?s1))"
        using Cons.prems(1) Deliver
        by (simp add: next_response.simps [of None s] transport_receive_def)
      show ?thesis
      proof (cases "is_keep_alive_response m")
        case True
        with unfold Cons.prems(2) Cons.IH [of ?s1] show ?thesis by simp
      next
        case False
        with unfold show ?thesis by simp
      qed
    next
      case (Fault d e')
      with Cons.prems(1) show ?thesis
        by (simp add: next_response.simps [of None s] transport_receive_def)
    qed
  qed
  have dec': "(r, s') = gql_receive None s \<Longrightarrow> r \<noteq> Suspends \<Longrightarrow>
      length (inbound s') < length (inbound s)" for s r s'
    using dec [of s "inbound s"]
    by (cases "next_response None s"; cases "fst (next_response None s)")
       (auto simp: gql_receive_def await_def)
  show ?thesis
    by (relation "measure (\<lambda>(fl, c, t, s). length (inbound s))") (auto dest!: dec')
qed

declare gql_wait_response_loop.simps [simp del]

text \<open>
  \<^verbatim>\<open>gql_wait_response\<close>: \<open>timeout = None\<close> is the default \<^verbatim>\<open>None\<close>, and \<open>TIMEOUT\<close> the class
  attribute.
\<close>

definition gql_wait_response ::
  "'f float_ops \<Rightarrow> 'f \<Rightarrow> (json \<Rightarrow> bool) \<Rightarrow> 'f option \<Rightarrow> world
     \<Rightarrow> json outcome \<times> world" where
  "gql_wait_response fl TIMEOUT response_checker timeout s =
     gql_wait_response_loop fl response_checker
       (case timeout of None \<Rightarrow> TIMEOUT | Some t \<Rightarrow> t) s"

subsection \<open>Vocabulary of the properties\<close>

text \<open>
  The seconds an event of the script takes, and the world after the events \<open>pre\<close> have
  been received and \<open>rest\<close> is still to come: one \<^verbatim>\<open>receive\<close> logged per event, the clock
  advanced by their durations, nothing else changed.
\<close>

fun elapsed :: "event \<Rightarrow> real" where
  "elapsed (Deliver d m) = d"
| "elapsed (Fault d e) = d"

definition consumed :: "event list \<Rightarrow> event list \<Rightarrow> world \<Rightarrow> world" where
  "consumed pre rest s =
     s\<lparr>calls := calls s @ replicate (length pre) Receive,
       inbound := rest,
       clock := clock s + sum_list (map elapsed pre)\<rparr>"

text \<open>
  An event the receive loop passes over while waiting for \<open>wait_id\<close>: a keep-alive, or,
  when an identifier is awaited, a message carrying another identifier. A message the
  loop stops at: not a keep-alive and, when an identifier is awaited, carrying it.
\<close>

fun skipped :: "string option \<Rightarrow> event \<Rightarrow> bool" where
  "skipped wait_id (Deliver d m) =
     (is_keep_alive_response m \<or>
      (case wait_id of
         None \<Rightarrow> False
       | Some w \<Rightarrow> (case map_of m ''id'' of None \<Rightarrow> False | Some i \<Rightarrow> i \<noteq> JStr w)))"
| "skipped wait_id (Fault d e) = False"

definition answers :: "string option \<Rightarrow> message \<Rightarrow> bool" where
  "answers wait_id m \<longleftrightarrow>
     \<not> is_keep_alive_response m \<and>
     (case wait_id of None \<Rightarrow> True | Some w \<Rightarrow> map_of m ''id'' = Some (JStr w))"

text \<open>
  A round of the bounded wait that does not end it: keep-alives, and then either a timeout
  of the transport or a message whose payload the checker refuses.
\<close>

fun unproductive :: "(json \<Rightarrow> bool) \<Rightarrow> event \<Rightarrow> bool" where
  "unproductive response_checker (Fault d e) = (e = TimeoutError)"
| "unproductive response_checker (Deliver d m) =
     (\<not> is_keep_alive_response m \<and>
      (case response_payload m of
         Returns p \<Rightarrow> \<not> response_checker p
       | Raises e \<Rightarrow> False
       | Suspends \<Rightarrow> False))"

definition unproductive_round :: "(json \<Rightarrow> bool) \<Rightarrow> event list \<Rightarrow> bool" where
  "unproductive_round response_checker r \<longleftrightarrow>
     r \<noteq> [] \<and> list_all (skipped None) (butlast r) \<and> unproductive response_checker (last r)"

text \<open>
  The budget that remains of \<open>timeout\<close> after the rounds, the first of which starts with
  the clock at \<open>c\<close>: every round takes from the budget the difference of the readings of
  \<^verbatim>\<open>time.monotonic()\<close> at its end and at its start.
\<close>

fun remaining :: "'f float_ops \<Rightarrow> 'f \<Rightarrow> real \<Rightarrow> event list list \<Rightarrow> 'f" where
  "remaining fl timeout c [] = timeout"
| "remaining fl timeout c (r # rounds) =
     remaining fl
       (float_sub fl timeout
          (float_sub fl (float_time fl (c + sum_list (map elapsed r))) (float_time fl c)))
       (c + sum_list (map elapsed r)) rounds"

text \<open>
  A world in which the transport has not been used yet: the script still to come, the
  clock at zero, a transport that connects, and the identifiers \<open>a\<close>, \<open>aa\<close>, \<open>aaa\<close>, ...
  to be minted. The properties are instantiated with it.
\<close>

definition start_world :: "event list \<Rightarrow> world" where
  "start_world script =
     \<lparr>calls = [], inbound = script, clock = 0, connect_fault = None,
      uuids = (\<lambda>n. replicate (Suc n) CHR ''a''), minted = 0\<rparr>"

section \<open>Properties\<close>

subsection \<open>The receive loop on a script\<close>

text \<open>One round of the loop, by the first event of the script.\<close>

lemma next_response_Nil:
  "inbound s = [] \<Longrightarrow> next_response wait_id s = (Suspends, s\<lparr>calls := calls s @ [Receive]\<rparr>)"
  by (simp add: next_response.simps [of wait_id s] transport_receive_def)

lemma next_response_Fault:
  "inbound s = Fault d e # es \<Longrightarrow>
   next_response wait_id s = (Raises e, consumed [Fault d e] es s)"
  by (simp add: next_response.simps [of wait_id s] transport_receive_def consumed_def)

lemma next_response_skipped:
  "inbound s = Deliver d m # es \<Longrightarrow> skipped wait_id (Deliver d m) \<Longrightarrow>
   next_response wait_id s = next_response wait_id (consumed [Deliver d m] es s)"
  by (auto simp: next_response.simps [of wait_id s] transport_receive_def consumed_def
           split: option.splits)

lemma next_response_answers:
  "inbound s = Deliver d m # es \<Longrightarrow> answers wait_id m \<Longrightarrow>
   next_response wait_id s = (Returns m, consumed [Deliver d m] es s)"
  by (auto simp: next_response.simps [of wait_id s] transport_receive_def consumed_def answers_def
           split: option.splits)

lemma next_response_no_id:
  "inbound s = Deliver d m # es \<Longrightarrow> \<not> is_keep_alive_response m \<Longrightarrow> map_of m ''id'' = None \<Longrightarrow>
   next_response (Some w) s = (Raises (KeyError ''id''), consumed [Deliver d m] es s)"
  by (auto simp: next_response.simps [of "Some w" s] transport_receive_def consumed_def
           split: option.splits)

lemma consumed_consumed:
  "consumed pre' rest (consumed pre (pre' @ rest) s) = consumed (pre @ pre') rest s"
  by (simp add: consumed_def replicate_add)

lemma inbound_consumed [simp]: "inbound (consumed pre rest s) = rest"
  by (simp add: consumed_def)

lemma consumed_inbound_update [simp]:
  "consumed pre rest (s\<lparr>inbound := es\<rparr>) = consumed pre rest s"
  by (simp add: consumed_def)

lemma next_response_skip:
  "list_all (skipped wait_id) pre \<Longrightarrow> inbound s = pre @ rest \<Longrightarrow>
   next_response wait_id s = next_response wait_id (consumed pre rest s)"
proof (induction pre arbitrary: s)
  case Nil
  then have "consumed [] rest s = s" by (simp add: consumed_def)
  then show ?case by simp
next
  case (Cons e pre)
  from Cons.prems(1) obtain d m where e: "e = Deliver d m"
    by (cases e) auto
  have "next_response wait_id s = next_response wait_id (consumed [e] (pre @ rest) s)"
    using Cons.prems e by (simp add: next_response_skipped)
  also have "\<dots> = next_response wait_id (consumed pre rest (consumed [e] (pre @ rest) s))"
    using Cons.prems(1) by (intro Cons.IH) simp_all
  also have "consumed pre rest (consumed [e] (pre @ rest) s) = consumed (e # pre) rest s"
    using consumed_consumed [of pre rest "[e]" s] by simp
  finally show ?case .
qed


lemma next_response_found:
  assumes "list_all (skipped wait_id) pre" and "answers wait_id m"
    and "inbound s = pre @ Deliver d m # rest"
  shows "next_response wait_id s = (Returns m, consumed (pre @ [Deliver d m]) rest s)"
proof -
  have "next_response wait_id s = next_response wait_id (consumed pre (Deliver d m # rest) s)"
    using assms(1,3) by (rule next_response_skip)
  also have "\<dots> = (Returns m, consumed [Deliver d m] rest (consumed pre (Deliver d m # rest) s))"
    using assms(2) by (intro next_response_answers) simp_all
  also have "consumed [Deliver d m] rest (consumed pre (Deliver d m # rest) s)
      = consumed (pre @ [Deliver d m]) rest s"
    using consumed_consumed [of "[Deliver d m]" rest pre s] by simp
  finally show ?thesis .
qed

lemma next_response_key_error:
  assumes "list_all (skipped (Some w)) pre"
    and "\<not> is_keep_alive_response m" and "map_of m ''id'' = None"
    and "inbound s = pre @ Deliver d m # rest"
  shows "next_response (Some w) s = (Raises (KeyError ''id''), consumed (pre @ [Deliver d m]) rest s)"
proof -
  have "next_response (Some w) s = next_response (Some w) (consumed pre (Deliver d m # rest) s)"
    using assms(1,4) by (rule next_response_skip)
  also have "\<dots> = (Raises (KeyError ''id''),
      consumed [Deliver d m] rest (consumed pre (Deliver d m # rest) s))"
    using assms(2,3) by (intro next_response_no_id) simp_all
  also have "consumed [Deliver d m] rest (consumed pre (Deliver d m # rest) s)
      = consumed (pre @ [Deliver d m]) rest s"
    using consumed_consumed [of "[Deliver d m]" rest pre s] by simp
  finally show ?thesis .
qed

text \<open>Every way the loop returns: it has passed over a prefix and stopped at an answer.\<close>

lemma next_response_Returns:
  assumes "next_response wait_id s = (Returns r, s')"
  shows "\<exists>pre d rest. inbound s = pre @ Deliver d r # rest \<and> list_all (skipped wait_id) pre \<and>
           answers wait_id r \<and> s' = consumed (pre @ [Deliver d r]) rest s"
  using assms
proof (induction "inbound s" arbitrary: s)
  case Nil
  then show ?case by (simp add: next_response_Nil)
next
  case (Cons e es)
  note inb = Cons.hyps(2) [symmetric]
  show ?case
  proof (cases e)
    case (Fault d x)
    with Cons.prems inb show ?thesis by (simp add: next_response_Fault)
  next
    case (Deliver d m)
    show ?thesis
    proof (cases "skipped wait_id e")
      case True
      let ?s1 = "consumed [e] es s"
      have "next_response wait_id ?s1 = (Returns r, s')"
        using Cons.prems inb Deliver True by (simp add: next_response_skipped)
      moreover have "es = inbound ?s1" by simp
      ultimately obtain pre d' rest where
        *: "inbound ?s1 = pre @ Deliver d' r # rest" "list_all (skipped wait_id) pre"
           "answers wait_id r" "s' = consumed (pre @ [Deliver d' r]) rest ?s1"
        using Cons.hyps(1) [of ?s1] by blast
      from *(1) have es: "es = pre @ Deliver d' r # rest" by simp
      have "s' = consumed ((e # pre) @ [Deliver d' r]) rest s"
        using *(4) consumed_consumed [of "pre @ [Deliver d' r]" rest "[e]" s] es by simp
      with inb es *(2,3) True show ?thesis
        by (intro exI [of _ "e # pre"] exI [of _ d'] exI [of _ rest]) simp
    next
      case False
      show ?thesis
      proof (cases "answers wait_id m")
        case True
        with Cons.prems inb Deliver have "r = m" "s' = consumed [Deliver d m] es s"
          by (auto simp: next_response_answers)
        with inb Deliver True show ?thesis
          by (intro exI [of _ "[]"] exI [of _ d] exI [of _ es]) simp
      next
        case nans: False
        with False Deliver obtain w where w: "wait_id = Some w" "\<not> is_keep_alive_response m"
          "map_of m ''id'' = None"
          by (auto simp: answers_def split: option.splits)
        with Cons.prems inb Deliver show ?thesis
          by (simp add: next_response_no_id)
      qed
    qed
  qed
qed

text \<open>The same for \<^verbatim>\<open>gql_receive\<close>, which hands the message found to \<^verbatim>\<open>_response_payload\<close>.\<close>

lemma gql_receive_found:
  assumes "list_all (skipped wait_id) pre" and "answers wait_id m"
    and "inbound s = pre @ Deliver d m # rest"
  shows "gql_receive wait_id s = (response_payload m, consumed (pre @ [Deliver d m]) rest s)"
  using next_response_found [OF assms] by (simp add: gql_receive_def await_def)

lemma gql_receive_skipped:
  "inbound s = Deliver d m # es \<Longrightarrow> skipped wait_id (Deliver d m) \<Longrightarrow>
   gql_receive wait_id s = gql_receive wait_id (consumed [Deliver d m] es s)"
  by (simp add: gql_receive_def next_response_skipped)

lemma gql_receive_Returns:
  assumes "gql_receive wait_id s = (Returns p, s')"
  shows "\<exists>r. next_response wait_id s = (Returns r, s') \<and> response_payload r = Returns p"
  using assms
  by (cases "next_response wait_id s"; cases "fst (next_response wait_id s)")
     (auto simp: gql_receive_def await_def)

subsection \<open>Keep-alive messages and other identifiers\<close>

text \<open>
  Claim C1. A receive call never returns a keep-alive message: a message whose \<^verbatim>\<open>type\<close> is
  \<^verbatim>\<open>"ka"\<close> at the head of the stream is discarded and the loop goes on with the rest of the
  stream; the message the loop returns, and so the message whose payload \<^verbatim>\<open>gql_receive\<close>
  returns, is never a keep-alive. On the stream of two keep-alives followed by the message
  \<^verbatim>\<open>{id: "X", payload: {data: 1}}\<close>, \<^verbatim>\<open>gql_receive(wait_id="X")\<close> returns \<^verbatim>\<open>{data: 1}\<close> after
  exactly three calls of \<^verbatim>\<open>receive\<close>, and the stream is empty.
\<close>

theorem keep_alive_never_returned:
  "(is_keep_alive_response m \<longrightarrow>
      gql_receive wait_id (s\<lparr>inbound := Deliver d m # rest\<rparr>)
        = gql_receive wait_id
            (s\<lparr>calls := calls s @ [Receive], inbound := rest, clock := clock s + d\<rparr>))
   \<and> (next_response wait_id s = (Returns r, s') \<longrightarrow> \<not> is_keep_alive_response r)
   \<and> (gql_receive wait_id s = (Returns p, s') \<longrightarrow>
        (\<exists>r. next_response wait_id s = (Returns r, s') \<and> \<not> is_keep_alive_response r \<and>
             response_payload r = Returns p))
   \<and> gql_receive (Some ''X'')
        (s\<lparr>inbound := [Deliver d1 [(''type'', JStr ''ka'')],
                       Deliver d2 [(''type'', JStr ''ka'')],
                       Deliver d3 [(''id'', JStr ''X''),
                                   (''payload'', JDict [(''data'', JNum 1)])]]\<rparr>)
      = (Returns (JDict [(''data'', JNum 1)]),
         s\<lparr>calls := calls s @ [Receive, Receive, Receive], inbound := [],
           clock := clock s + d1 + d2 + d3\<rparr>)"
proof (intro conjI impI)
  assume "is_keep_alive_response m"
  then show "gql_receive wait_id (s\<lparr>inbound := Deliver d m # rest\<rparr>)
      = gql_receive wait_id
          (s\<lparr>calls := calls s @ [Receive], inbound := rest, clock := clock s + d\<rparr>)"
    using gql_receive_skipped [of "s\<lparr>inbound := Deliver d m # rest\<rparr>" d m rest wait_id]
    by (simp add: consumed_def)
next
  assume "next_response wait_id s = (Returns r, s')"
  from next_response_Returns [OF this] show "\<not> is_keep_alive_response r"
    by (auto simp: answers_def)
next
  assume "gql_receive wait_id s = (Returns p, s')"
  from gql_receive_Returns [OF this] obtain r where
    r: "next_response wait_id s = (Returns r, s')" "response_payload r = Returns p"
    by blast
  from next_response_Returns [OF r(1)] have "\<not> is_keep_alive_response r"
    by (auto simp: answers_def)
  with r show "\<exists>r. next_response wait_id s = (Returns r, s') \<and> \<not> is_keep_alive_response r \<and>
      response_payload r = Returns p"
    by blast
next
  let ?ka = "[(''type'', JStr ''ka'')]"
  let ?m = "[(''id'', JStr ''X''), (''payload'', JDict [(''data'', JNum 1)])]"
  have "gql_receive (Some ''X'') (s\<lparr>inbound := [Deliver d1 ?ka, Deliver d2 ?ka] @ Deliver d3 ?m # []\<rparr>)
      = (response_payload ?m, consumed ([Deliver d1 ?ka, Deliver d2 ?ka] @ [Deliver d3 ?m]) []
           (s\<lparr>inbound := [Deliver d1 ?ka, Deliver d2 ?ka] @ Deliver d3 ?m # []\<rparr>))"
    by (rule gql_receive_found) (simp_all add: is_keep_alive_response_def answers_def)
  moreover have "response_payload ?m = Returns (JDict [(''data'', JNum 1)])"
    by (simp add: response_payload_def)
  ultimately show "gql_receive (Some ''X'')
        (s\<lparr>inbound := [Deliver d1 ?ka, Deliver d2 ?ka, Deliver d3 ?m]\<rparr>)
      = (Returns (JDict [(''data'', JNum 1)]),
         s\<lparr>calls := calls s @ [Receive, Receive, Receive], inbound := [],
           clock := clock s + d1 + d2 + d3\<rparr>)"
    by (simp add: consumed_def)
qed


theorem keep_alive_never_returned_witness:
  "is_keep_alive_response [(''type'', JStr ''ka'')]
   \<and> gql_receive (Some ''X'')
        (start_world [Deliver 1 [(''type'', JStr ''ka'')],
                      Deliver 2 [(''id'', JStr ''X''), (''payload'', JDict [(''data'', JNum 1)])]])
      = (Returns (JDict [(''data'', JNum 1)]),
         (start_world [])\<lparr>calls := [Receive, Receive], clock := 3\<rparr>)
   \<and> next_response (Some ''X'')
        (start_world [Deliver 1 [(''type'', JStr ''ka'')],
                      Deliver 2 [(''id'', JStr ''X''), (''payload'', JDict [(''data'', JNum 1)])]])
      = (Returns [(''id'', JStr ''X''), (''payload'', JDict [(''data'', JNum 1)])],
         (start_world [])\<lparr>calls := [Receive, Receive], clock := 3\<rparr>)
   \<and> \<not> is_keep_alive_response [(''id'', JStr ''X''), (''payload'', JDict [(''data'', JNum 1)])]"
  using keep_alive_never_returned
    [where m = "[(''type'', JStr ''ka'')]" and wait_id = "Some ''X''"
       and s = "start_world [Deliver 1 [(''type'', JStr ''ka'')],
            Deliver 2 [(''id'', JStr ''X''), (''payload'', JDict [(''data'', JNum 1)])]]"
       and d = 1
       and rest = "[Deliver 2 [(''id'', JStr ''X''), (''payload'', JDict [(''data'', JNum 1)])]]"
       and r = "[(''id'', JStr ''X''), (''payload'', JDict [(''data'', JNum 1)])]"
       and s' = "(start_world [])\<lparr>calls := [Receive, Receive], clock := 3\<rparr>"
       and p = "JDict [(''data'', JNum 1)]"]
  by (simp add: start_world_def gql_receive_def await_def next_response.simps
        transport_receive_def is_keep_alive_response_def response_payload_def)

text \<open>
  Claim C2. While \<^verbatim>\<open>gql_receive\<close> waits for an identifier, the messages it passes over are
  taken from the stream and kept nowhere: after the call the world holds the events that
  followed the answer and nothing else, so whatever a later receive returns is the payload
  of a message that arrived after the answer. On the stream
  \<^verbatim>\<open>[{id: "Y", payload: {}}, {id: "X", payload: {data: 1}}]\<close>, \<^verbatim>\<open>gql_receive(wait_id="X")\<close>
  returns \<^verbatim>\<open>{data: 1}\<close> and leaves the stream empty; a later \<^verbatim>\<open>gql_receive(wait_id="Y")\<close>
  finds nothing and stays suspended.
\<close>

theorem other_identifier_dropped:
  "(list_all (skipped (Some w)) pre \<and> answers (Some w) m \<longrightarrow>
      gql_receive (Some w) (s\<lparr>inbound := pre @ Deliver d m # rest\<rparr>)
        = (response_payload m, consumed (pre @ [Deliver d m]) rest s)
      \<and> (\<forall>wait_id p s2.
            gql_receive wait_id (consumed (pre @ [Deliver d m]) rest s) = (Returns p, s2) \<longrightarrow>
            (\<exists>pre' d' m' rest'. rest = pre' @ Deliver d' m' # rest' \<and>
               response_payload m' = Returns p)))
   \<and> gql_receive (Some ''X'')
        (s\<lparr>inbound := [Deliver d1 [(''id'', JStr ''Y''), (''payload'', JDict [])],
                       Deliver d2 [(''id'', JStr ''X''),
                                   (''payload'', JDict [(''data'', JNum 1)])]]\<rparr>)
      = (Returns (JDict [(''data'', JNum 1)]),
         s\<lparr>calls := calls s @ [Receive, Receive], inbound := [], clock := clock s + d1 + d2\<rparr>)
   \<and> gql_receive (Some ''Y'')
        (s\<lparr>calls := calls s @ [Receive, Receive], inbound := [], clock := clock s + d1 + d2\<rparr>)
      = (Suspends,
         s\<lparr>calls := calls s @ [Receive, Receive, Receive], inbound := [],
           clock := clock s + d1 + d2\<rparr>)"
proof (intro conjI impI allI)
  assume a: "list_all (skipped (Some w)) pre \<and> answers (Some w) m"
  then show "gql_receive (Some w) (s\<lparr>inbound := pre @ Deliver d m # rest\<rparr>)
      = (response_payload m, consumed (pre @ [Deliver d m]) rest s)"
    using gql_receive_found [of "Some w" pre m "s\<lparr>inbound := pre @ Deliver d m # rest\<rparr>" d rest]
    by simp
next
  fix wait_id p s2
  assume "gql_receive wait_id (consumed (pre @ [Deliver d m]) rest s) = (Returns p, s2)"
  from gql_receive_Returns [OF this] obtain r where
    r: "next_response wait_id (consumed (pre @ [Deliver d m]) rest s) = (Returns r, s2)"
       "response_payload r = Returns p"
    by blast
  from next_response_Returns [OF r(1)] r(2)
  show "\<exists>pre' d' m' rest'. rest = pre' @ Deliver d' m' # rest' \<and> response_payload m' = Returns p"
    by auto
next
  let ?y = "[(''id'', JStr ''Y''), (''payload'', JDict [])]"
  let ?x = "[(''id'', JStr ''X''), (''payload'', JDict [(''data'', JNum 1)])]"
  have "gql_receive (Some ''X'') (s\<lparr>inbound := [Deliver d1 ?y] @ Deliver d2 ?x # []\<rparr>)
      = (response_payload ?x, consumed ([Deliver d1 ?y] @ [Deliver d2 ?x]) []
           (s\<lparr>inbound := [Deliver d1 ?y] @ Deliver d2 ?x # []\<rparr>))"
    by (rule gql_receive_found) (simp_all add: is_keep_alive_response_def answers_def)
  moreover have "response_payload ?x = Returns (JDict [(''data'', JNum 1)])"
    by (simp add: response_payload_def)
  ultimately show "gql_receive (Some ''X'') (s\<lparr>inbound := [Deliver d1 ?y, Deliver d2 ?x]\<rparr>)
      = (Returns (JDict [(''data'', JNum 1)]),
         s\<lparr>calls := calls s @ [Receive, Receive], inbound := [], clock := clock s + d1 + d2\<rparr>)"
    by (simp add: consumed_def)
next
  show "gql_receive (Some ''Y'')
        (s\<lparr>calls := calls s @ [Receive, Receive], inbound := [], clock := clock s + d1 + d2\<rparr>)
      = (Suspends,
         s\<lparr>calls := calls s @ [Receive, Receive, Receive], inbound := [],
           clock := clock s + d1 + d2\<rparr>)"
    by (simp add: gql_receive_def await_def next_response_Nil)
qed

theorem other_identifier_dropped_witness:
  "list_all (skipped (Some ''X'')) [Deliver 1 [(''id'', JStr ''Y''), (''payload'', JDict [])]]
   \<and> answers (Some ''X'') [(''id'', JStr ''X''), (''payload'', JDict [(''data'', JNum 1)])]
   \<and> gql_receive (Some ''X'')
        (start_world [Deliver 1 [(''id'', JStr ''Y''), (''payload'', JDict [])],
                      Deliver 2 [(''id'', JStr ''X''), (''payload'', JDict [(''data'', JNum 1)])],
                      Deliver 4 [(''id'', JStr ''Z''), (''payload'', JDict [(''data'', JNum 2)])]])
      = (Returns (JDict [(''data'', JNum 1)]),
         (start_world [Deliver 4 [(''id'', JStr ''Z''), (''payload'', JDict [(''data'', JNum 2)])]])
           \<lparr>calls := [Receive, Receive], clock := 3\<rparr>)
   \<and> gql_receive (Some ''Z'')
        ((start_world [Deliver 4 [(''id'', JStr ''Z''), (''payload'', JDict [(''data'', JNum 2)])]])
           \<lparr>calls := [Receive, Receive], clock := 3\<rparr>)
      = (Returns (JDict [(''data'', JNum 2)]),
         (start_world [])\<lparr>calls := [Receive, Receive, Receive], clock := 7\<rparr>)
   \<and> fst (gql_receive (Some ''Y'')
        ((start_world [Deliver 4 [(''id'', JStr ''Z''), (''payload'', JDict [(''data'', JNum 2)])]])
           \<lparr>calls := [Receive, Receive], clock := 3\<rparr>)) = Suspends"
  using other_identifier_dropped
    [where w = "''X''" and pre = "[Deliver 1 [(''id'', JStr ''Y''), (''payload'', JDict [])]]"
       and m = "[(''id'', JStr ''X''), (''payload'', JDict [(''data'', JNum 1)])]"
       and d = 2
       and rest = "[Deliver 4 [(''id'', JStr ''Z''), (''payload'', JDict [(''data'', JNum 2)])]]"
       and s = "start_world []"]
  by (simp add: start_world_def gql_receive_def await_def next_response.simps
        transport_receive_def is_keep_alive_response_def response_payload_def answers_def
        consumed_def)

text \<open>
  Claim C9. When an identifier is awaited and the loop reaches a message that is not a
  keep-alive and has no \<^verbatim>\<open>id\<close> field, the call raises \<^verbatim>\<open>KeyError\<close>: the message is neither
  passed over nor returned, and the events after it stay in the stream.
\<close>

theorem missing_id_key_error:
  "list_all (skipped (Some w)) pre \<Longrightarrow> \<not> is_keep_alive_response m \<Longrightarrow>
   map_of m ''id'' = None \<Longrightarrow>
   next_response (Some w) (s\<lparr>inbound := pre @ Deliver d m # rest\<rparr>)
     = (Raises (KeyError ''id''), consumed (pre @ [Deliver d m]) rest s)
   \<and> gql_receive (Some w) (s\<lparr>inbound := pre @ Deliver d m # rest\<rparr>)
     = (Raises (KeyError ''id''), consumed (pre @ [Deliver d m]) rest s)"
  using next_response_key_error
    [of w pre m "s\<lparr>inbound := pre @ Deliver d m # rest\<rparr>" d rest]
  by (simp add: gql_receive_def await_def)

theorem missing_id_key_error_witness:
  "list_all (skipped (Some ''X'')) [Deliver 1 [(''type'', JStr ''ka'')]]
   \<and> \<not> is_keep_alive_response [(''type'', JStr ''data''), (''payload'', JDict [(''data'', JNum 1)])]
   \<and> map_of [(''type'', JStr ''data''), (''payload'', JDict [(''data'', JNum 1)])] ''id'' = None
   \<and> gql_receive (Some ''X'')
        (start_world [Deliver 1 [(''type'', JStr ''ka'')],
                      Deliver 2 [(''type'', JStr ''data''), (''payload'', JDict [(''data'', JNum 1)])],
                      Deliver 4 [(''id'', JStr ''X''), (''payload'', JDict [(''data'', JNum 2)])]])
      = (Raises (KeyError ''id''),
         (start_world [Deliver 4 [(''id'', JStr ''X''), (''payload'', JDict [(''data'', JNum 2)])]])
           \<lparr>calls := [Receive, Receive], clock := 3\<rparr>)"
  using missing_id_key_error
    [where w = "''X''" and pre = "[Deliver 1 [(''type'', JStr ''ka'')]]"
       and m = "[(''type'', JStr ''data''), (''payload'', JDict [(''data'', JNum 1)])]"
       and d = 2
       and rest = "[Deliver 4 [(''id'', JStr ''X''), (''payload'', JDict [(''data'', JNum 2)])]]"
       and s = "start_world []"]
  by (simp add: start_world_def is_keep_alive_response_def consumed_def)

subsection \<open>Error payloads\<close>

text \<open>\<^verbatim>\<open>_response_payload\<close> by the shape of the payload.\<close>

lemma response_payload_errors:
  "map_of r ''payload'' = Some (JDict d) \<Longrightarrow> map_of d ''errors'' = Some errs \<Longrightarrow>
   response_payload r = Raises (GraphqlWsResponseError (JDict d) errs)"
  by (simp add: response_payload_def raise_GraphqlWsResponseError_def)

lemma response_payload_absent:
  "map_of r ''payload'' = None \<or> map_of r ''payload'' = Some JNull \<Longrightarrow>
   response_payload r = Returns JNull"
  by (auto simp: response_payload_def)

lemma response_payload_without_errors:
  "map_of r ''payload'' = Some p \<Longrightarrow> py_contains ''errors'' p = Inr False \<Longrightarrow>
   response_payload r = Returns p"
  by (auto simp: response_payload_def)

text \<open>
  The client is written for payloads that are dicts. A payload that is a number or a
  boolean is no container, and the test \<^verbatim>\<open>"errors" in payload\<close> itself raises \<^verbatim>\<open>TypeError\<close>;
  a string payload is searched for the substring, and the constructor of the error then
  fails on \<^verbatim>\<open>response["errors"]\<close>.
\<close>

lemma response_payload_not_a_container:
  "map_of r ''payload'' = Some (JNum n) \<or> map_of r ''payload'' = Some (JBool b) \<Longrightarrow>
   response_payload r = Raises TypeError"
  by (auto simp: response_payload_def)

lemma response_payload_string_with_errors:
  "response_payload [(''payload'', JStr ''no errors'')] = Raises TypeError"
  by (simp add: response_payload_def raise_GraphqlWsResponseError_def)

text \<open>
  Claim C3, amended. For every response the receive loop returns: when its payload is a
  mapping with an \<^verbatim>\<open>errors\<close> key, \<^verbatim>\<open>gql_receive\<close> raises \<^verbatim>\<open>GraphqlWsResponseError\<close> whose
  \<^verbatim>\<open>response\<close> attribute is that very payload (and whose \<^verbatim>\<open>errors\<close> attribute is the value
  of the key); when the payload is absent or null it returns null; when the payload is a
  mapping without the key, or any other value on which the test \<^verbatim>\<open>"errors" in payload\<close> is
  false (a string without that substring, a list without that element), it returns the
  payload. The world is the one the receive loop left. Nothing is said of the payloads
  that are not mappings and on which the test is not false.
\<close>

theorem response_error_raised:
  "next_response wait_id s = (Returns r, s') \<Longrightarrow>
   (map_of r ''payload'' = Some (JDict d) \<and> map_of d ''errors'' = Some errs \<longrightarrow>
      gql_receive wait_id s = (Raises (GraphqlWsResponseError (JDict d) errs), s'))
   \<and> (map_of r ''payload'' = None \<or> map_of r ''payload'' = Some JNull \<longrightarrow>
      gql_receive wait_id s = (Returns JNull, s'))
   \<and> (map_of r ''payload'' = Some (JDict d) \<and> map_of d ''errors'' = None \<longrightarrow>
      gql_receive wait_id s = (Returns (JDict d), s'))
   \<and> (map_of r ''payload'' = Some p \<and> py_contains ''errors'' p = Inr False \<longrightarrow>
      gql_receive wait_id s = (Returns p, s'))"
  by (auto simp: gql_receive_def await_def response_payload_errors response_payload_absent
        response_payload_without_errors)

theorem response_error_raised_witness:
  "next_response (Some ''X'')
     (start_world [Deliver 1 [(''id'', JStr ''X''),
        (''payload'', JDict [(''errors'', JList [JStr ''boom'']), (''data'', JNull)])]])
     = (Returns [(''id'', JStr ''X''),
          (''payload'', JDict [(''errors'', JList [JStr ''boom'']), (''data'', JNull)])],
        (start_world [])\<lparr>calls := [Receive], clock := 1\<rparr>)
   \<and> gql_receive (Some ''X'')
     (start_world [Deliver 1 [(''id'', JStr ''X''),
        (''payload'', JDict [(''errors'', JList [JStr ''boom'']), (''data'', JNull)])]])
     = (Raises (GraphqlWsResponseError
          (JDict [(''errors'', JList [JStr ''boom'']), (''data'', JNull)])
          (JList [JStr ''boom''])),
        (start_world [])\<lparr>calls := [Receive], clock := 1\<rparr>)
   \<and> next_response (Some ''X'')
         (start_world [Deliver 1 [(''id'', JStr ''X''), (''type'', JStr ''complete'')]])
     = (Returns [(''id'', JStr ''X''), (''type'', JStr ''complete'')],
        (start_world [])\<lparr>calls := [Receive], clock := 1\<rparr>)
   \<and> map_of [(''id'', JStr ''X''), (''type'', JStr ''complete'')] ''payload'' = None
   \<and> gql_receive (Some ''X'')
         (start_world [Deliver 1 [(''id'', JStr ''X''), (''type'', JStr ''complete'')]])
     = (Returns JNull, (start_world [])\<lparr>calls := [Receive], clock := 1\<rparr>)"
  using response_error_raised
    [where wait_id = "Some ''X''"
       and s = "start_world [Deliver 1 [(''id'', JStr ''X''),
          (''payload'', JDict [(''errors'', JList [JStr ''boom'']), (''data'', JNull)])]]"
       and r = "[(''id'', JStr ''X''),
          (''payload'', JDict [(''errors'', JList [JStr ''boom'']), (''data'', JNull)])]"
       and s' = "(start_world [])\<lparr>calls := [Receive], clock := 1\<rparr>"
       and d = "[(''errors'', JList [JStr ''boom'']), (''data'', JNull)]"
       and errs = "JList [JStr ''boom'']"]
    response_error_raised
    [where wait_id = "Some ''X''"
       and s = "start_world [Deliver 1 [(''id'', JStr ''X''), (''type'', JStr ''complete'')]]"
       and r = "[(''id'', JStr ''X''), (''type'', JStr ''complete'')]"
       and s' = "(start_world [])\<lparr>calls := [Receive], clock := 1\<rparr>"]
  by (simp add: start_world_def next_response.simps transport_receive_def
        is_keep_alive_response_def)

text \<open>
  Claim C3 as it was stated, that every response whose payload lacks \<^verbatim>\<open>errors\<close> has its
  payload returned without raising, fails on a payload that is no container: for the
  response \<^verbatim>\<open>{id: "X", payload: 5}\<close> the test \<^verbatim>\<open>"errors" in 5\<close> raises \<^verbatim>\<open>TypeError\<close>, and so does
  \<^verbatim>\<open>gql_receive\<close>.
\<close>

theorem response_error_raised_counterexample:
  "map_of [(''id'', JStr ''X''), (''payload'', JNum 5)] ''payload'' = Some (JNum 5)
   \<and> next_response (Some ''X'')
         (start_world [Deliver 1 [(''id'', JStr ''X''), (''payload'', JNum 5)]])
     = (Returns [(''id'', JStr ''X''), (''payload'', JNum 5)],
        (start_world [])\<lparr>calls := [Receive], clock := 1\<rparr>)
   \<and> gql_receive (Some ''X'')
         (start_world [Deliver 1 [(''id'', JStr ''X''), (''payload'', JNum 5)]])
     = (Raises TypeError, (start_world [])\<lparr>calls := [Receive], clock := 1\<rparr>)
   \<and> fst (gql_receive (Some ''X'')
         (start_world [Deliver 1 [(''id'', JStr ''X''), (''payload'', JNum 5)]]))
     \<noteq> Returns (JNum 5)"
  by (simp add: start_world_def gql_receive_def await_def next_response.simps
        transport_receive_def is_keep_alive_response_def response_payload_def)

subsection \<open>Handshake\<close>

text \<open>
  Claim C5. On a transport that connects, \<^verbatim>\<open>gql_connect_and_init()\<close> calls \<^verbatim>\<open>connect\<close>, then
  sends one message \<^verbatim>\<open>{type: "connection_init", payload: ""}\<close>, then calls \<^verbatim>\<open>receive\<close> once.
  When the response has a \<^verbatim>\<open>type\<close> other than \<^verbatim>\<open>"connection_ack"\<close> the call raises
  \<^verbatim>\<open>AssertionError\<close>, and the log of the transport shows that nothing but the
  initialization message has been sent; when the type is \<^verbatim>\<open>"connection_ack"\<close> it returns;
  when no response comes it stays suspended in that one \<^verbatim>\<open>receive\<close>. With
  \<^verbatim>\<open>connect_only=True\<close> the only call of the transport is \<^verbatim>\<open>connect\<close>.
\<close>

theorem handshake:
  "connect_fault s = None \<Longrightarrow>
   (map_of r ''type'' = Some t \<and> t \<noteq> JStr ''connection_ack'' \<longrightarrow>
      gql_connect_and_init TIMEOUT False (s\<lparr>inbound := Deliver d r # rest\<rparr>)
        = (Raises AssertionError,
           s\<lparr>calls := calls s @ [Connect TIMEOUT,
                 Send [(''type'', JStr ''connection_init''), (''payload'', JStr [])], Receive],
             inbound := rest, clock := clock s + d\<rparr>))
   \<and> (map_of r ''type'' = Some (JStr ''connection_ack'') \<longrightarrow>
      gql_connect_and_init TIMEOUT False (s\<lparr>inbound := Deliver d r # rest\<rparr>)
        = (Returns (),
           s\<lparr>calls := calls s @ [Connect TIMEOUT,
                 Send [(''type'', JStr ''connection_init''), (''payload'', JStr [])], Receive],
             inbound := rest, clock := clock s + d\<rparr>))
   \<and> gql_connect_and_init TIMEOUT False (s\<lparr>inbound := []\<rparr>)
        = (Suspends,
           s\<lparr>calls := calls s @ [Connect TIMEOUT,
                 Send [(''type'', JStr ''connection_init''), (''payload'', JStr [])], Receive],
             inbound := []\<rparr>)
   \<and> gql_connect_and_init TIMEOUT True s
        = (Returns (), s\<lparr>calls := calls s @ [Connect TIMEOUT]\<rparr>)"
  by (simp add: gql_connect_and_init_def await_def transport_connect_def transport_send_def
        transport_receive_def)

theorem handshake_witness:
  "connect_fault (start_world []) = None
   \<and> map_of [(''type'', JStr ''connection_error''), (''payload'', JDict [])] ''type''
       = Some (JStr ''connection_error'')
   \<and> JStr ''connection_error'' \<noteq> JStr ''connection_ack''
   \<and> gql_connect_and_init 60 False
        (start_world [Deliver 1 [(''type'', JStr ''connection_error''), (''payload'', JDict [])],
                      Deliver 2 [(''type'', JStr ''connection_ack'')]])
      = (Raises AssertionError,
         (start_world [Deliver 2 [(''type'', JStr ''connection_ack'')]])
           \<lparr>calls := [Connect 60,
                Send [(''type'', JStr ''connection_init''), (''payload'', JStr [])], Receive],
            clock := 1\<rparr>)
   \<and> gql_connect_and_init 60 False (start_world [Deliver 2 [(''type'', JStr ''connection_ack'')]])
      = (Returns (),
         (start_world [])
           \<lparr>calls := [Connect 60,
                Send [(''type'', JStr ''connection_init''), (''payload'', JStr [])], Receive],
            clock := 2\<rparr>)
   \<and> gql_connect_and_init 60 True (start_world [Deliver 2 [(''type'', JStr ''connection_ack'')]])
      = (Returns (),
         (start_world [Deliver 2 [(''type'', JStr ''connection_ack'')]])\<lparr>calls := [Connect 60]\<rparr>)"
  using handshake
    [where s = "start_world []" and TIMEOUT = 60 and d = 1
       and r = "[(''type'', JStr ''connection_error''), (''payload'', JDict [])]"
       and t = "JStr ''connection_error''"
       and rest = "[Deliver 2 [(''type'', JStr ''connection_ack'')]]"]
    handshake
    [where s = "start_world [Deliver 2 [(''type'', JStr ''connection_ack'')]]" and TIMEOUT = 60
       and d = 2 and r = "[(''type'', JStr ''connection_ack'')]" and rest = "[]"]
  by (simp add: start_world_def)

text \<open>A response without a \<^verbatim>\<open>type\<close> field fails the handshake too, with \<^verbatim>\<open>KeyError\<close>.\<close>

lemma handshake_without_type:
  "connect_fault s = None \<Longrightarrow> map_of r ''type'' = None \<Longrightarrow>
   gql_connect_and_init TIMEOUT False (s\<lparr>inbound := Deliver d r # rest\<rparr>)
     = (Raises (KeyError ''type''),
        s\<lparr>calls := calls s @ [Connect TIMEOUT,
              Send [(''type'', JStr ''connection_init''), (''payload'', JStr [])], Receive],
          inbound := rest, clock := clock s + d\<rparr>)"
  by (simp add: gql_connect_and_init_def await_def transport_connect_def transport_send_def
        transport_receive_def)

subsection \<open>Message construction\<close>

text \<open>What \<^verbatim>\<open>gql_send\<close> returns and sends, for every combination of its arguments.\<close>

lemma gql_send_result:
  "gql_send msg_id msg_type payload s =
     (Returns (case msg_id of AUTO \<Rightarrow> Some (uuids s (minted s)) | PyNone \<Rightarrow> None
               | Ident i \<Rightarrow> Some i),
      (case msg_id of AUTO \<Rightarrow> s\<lparr>minted := Suc (minted s)\<rparr> | PyNone \<Rightarrow> s | Ident i \<Rightarrow> s)
        \<lparr>calls := calls s @
           [Send ((case msg_id of AUTO \<Rightarrow> [(''id'', JStr (uuids s (minted s)))] | PyNone \<Rightarrow> []
                   | Ident i \<Rightarrow> [(''id'', JStr i)]) @
                  (case msg_type of None \<Rightarrow> [] | Some t \<Rightarrow> [(''type'', JStr t)]) @
                  (if payload = JNull then [] else [(''payload'', payload)]))]\<rparr>)"
  by (cases msg_id; cases msg_type)
     (simp_all add: gql_send_def uuid4_hex_def await_def transport_send_def)

subsection \<open>Dedenting\<close>

text \<open>
  \<^const>\<open>common_prefix\<close> is the greatest common prefix, so the margin the loop of
  \<^verbatim>\<open>textwrap.dedent\<close> computes is the greatest common prefix of the indentations.
\<close>

lemma startswith_iff: "startswith s p \<longleftrightarrow> take (length p) s = p"
  by (induction s p rule: startswith.induct) auto

lemma startswith_Nil [simp]: "startswith [] p \<longleftrightarrow> p = []"
  by (cases p) auto

lemma startswith_refl [simp]: "startswith s s"
  by (simp add: startswith_iff)

lemma startswith_common_prefix_left: "startswith a (common_prefix a b)"
  by (induction a b rule: common_prefix.induct) auto

lemma startswith_common_prefix_right: "startswith b (common_prefix a b)"
  by (induction a b rule: common_prefix.induct) auto

lemma common_prefix_greatest:
  "startswith a q \<Longrightarrow> startswith b q \<Longrightarrow> startswith (common_prefix a b) q"
proof (induction q arbitrary: a b)
  case Nil
  then show ?case by simp
next
  case (Cons c q)
  from Cons.prems obtain a' b' where "a = c # a'" "b = c # b'"
    by (cases a; cases b) auto
  with Cons show ?case by simp
qed

lemma startswith_trans: "startswith a b \<Longrightarrow> startswith b c \<Longrightarrow> startswith a c"
proof (induction a b arbitrary: c rule: startswith.induct)
  case (1 s)
  then show ?case by (cases c) auto
next
  case (2 p ps)
  then show ?case by simp
next
  case (3 x s p ps)
  then show ?case by (cases c) auto
qed

lemma common_prefix_startswith: "startswith b a \<Longrightarrow> common_prefix a b = a"
  by (induction a b rule: common_prefix.induct) auto

lemma common_prefix_startswith': "startswith a b \<Longrightarrow> common_prefix a b = b"
  by (induction a b rule: common_prefix.induct) auto

lemma margin_step_Some: "margin_step (Some m) i = Some (common_prefix m i)"
  by (simp add: margin_step_def common_prefix_startswith common_prefix_startswith')

lemma foldl_margin_step_Some:
  "foldl margin_step (Some m) is = Some (foldl common_prefix m is)"
  by (induction "is" arbitrary: m) (simp_all add: margin_step_Some)

lemma foldl_common_prefix_lower:
  "startswith m (foldl common_prefix m is) \<and> (\<forall>i\<in>set is. startswith i (foldl common_prefix m is))"
proof (induction "is" arbitrary: m)
  case Nil
  then show ?case by simp
next
  case (Cons i "is")
  have a: "startswith (common_prefix m i) (foldl common_prefix (common_prefix m i) is)"
    and b: "\<forall>j\<in>set is. startswith j (foldl common_prefix (common_prefix m i) is)"
    using Cons.IH [of "common_prefix m i"] by simp_all
  show ?case
    using a b startswith_trans [OF startswith_common_prefix_left a]
      startswith_trans [OF startswith_common_prefix_right a]
    by simp
qed

lemma foldl_common_prefix_greatest:
  "startswith m q \<Longrightarrow> \<forall>i\<in>set is. startswith i q \<Longrightarrow> startswith (foldl common_prefix m is) q"
  by (induction "is" arbitrary: m) (simp_all add: common_prefix_greatest)


lemma startswith_takeWhile: "startswith l (takeWhile P l)"
  by (induction l) auto

lemma startswith_takeWhile_blank:
  "list_all P q \<Longrightarrow> startswith l q \<Longrightarrow> startswith (takeWhile P l) q"
  by (induction l q rule: startswith.induct) auto

lemma startswith_list_all: "startswith s p \<Longrightarrow> list_all P s \<Longrightarrow> list_all P p"
  by (induction s p rule: startswith.induct) auto

lemma list_all_takeWhile: "list_all P (takeWhile P l)"
  by (induction l) auto

lemma strip_margin_Nil [simp]: "strip_margin [] l = l"
  by (simp add: strip_margin_def)

lemma indents_blank_out:
  "indents (map blank_out ls) = map (takeWhile is_blank) (filter (\<lambda>l. \<not> list_all is_blank l) ls)"
  by (induction ls) (auto simp: indents_def blank_out_def)

text \<open>
  What \<^const>\<open>dedent\<close> does to a text: lines of blanks become empty, and one margin of
  blanks is removed from the start of every other line; every such line starts with the
  margin, and the margin is the longest string of blanks with which all of them start.
\<close>

lemma dedent_margin:
  "\<exists>m. list_all is_blank m
     \<and> dedent text = join_lines (map (\<lambda>l. strip_margin m (blank_out l)) (split_lines text))
     \<and> (\<forall>l\<in>set (split_lines text). \<not> list_all is_blank l \<longrightarrow> startswith l m)
     \<and> (\<forall>q. list_all is_blank q
           \<and> (\<exists>l\<in>set (split_lines text). \<not> list_all is_blank l)
           \<and> (\<forall>l\<in>set (split_lines text). \<not> list_all is_blank l \<longrightarrow> startswith l q)
           \<longrightarrow> startswith m q)"
proof -
  let ?lines = "split_lines text"
  let ?full = "filter (\<lambda>l. \<not> list_all is_blank l) ?lines"
  let ?is = "map (takeWhile is_blank) ?full"
  have ind: "indents (map blank_out ?lines) = ?is"
    by (rule indents_blank_out)
  show ?thesis
  proof (cases ?full)
    case Nil
    then have none: "\<forall>l\<in>set ?lines. list_all is_blank l"
      by (simp add: filter_empty_conv)
    have "dedent text = join_lines (map blank_out ?lines)"
      using ind Nil by (simp add: dedent_def)
    with none show ?thesis
      by (intro exI [of _ "[]"]) (simp add: comp_def)
  next
    case (Cons l0 ls0)
    let ?i = "takeWhile is_blank l0"
    let ?m = "foldl common_prefix ?i (map (takeWhile is_blank) ls0)"
    have marg: "foldl margin_step None (indents (map blank_out ?lines)) = Some ?m"
      using ind Cons by (simp add: margin_step_def foldl_margin_step_Some)
    have ded: "dedent text = join_lines (map (\<lambda>l. strip_margin ?m (blank_out l)) ?lines)"
      using marg by (cases "?m = []") (simp_all add: dedent_def comp_def)
    have lower: "startswith ?i ?m"
      "\<forall>i\<in>set (map (takeWhile is_blank) ls0). startswith i ?m"
      using foldl_common_prefix_lower [of ?i "map (takeWhile is_blank) ls0"] by simp_all
    have blank: "list_all is_blank ?m"
      using lower(1) by (rule startswith_list_all) (rule list_all_takeWhile)
    have every: "startswith l ?m" if "l \<in> set ?lines" "\<not> list_all is_blank l" for l
    proof -
      from that have "l \<in> set ?full" by simp
      with Cons have "l = l0 \<or> l \<in> set ls0" by simp
      with lower have "startswith (takeWhile is_blank l) ?m" by auto
      with startswith_takeWhile [of l is_blank] show ?thesis
        by (rule startswith_trans)
    qed
    have greatest: "startswith ?m q"
      if q: "list_all is_blank q"
        and all: "\<forall>l\<in>set ?lines. \<not> list_all is_blank l \<longrightarrow> startswith l q" for q
    proof -
      have mem: "set ?full = insert l0 (set ls0)" using Cons by simp
      have "startswith (takeWhile is_blank l) q" if "l \<in> set ?full" for l
        using that all q by (auto intro: startswith_takeWhile_blank)
      with mem have "startswith ?i q" "\<forall>i\<in>set (map (takeWhile is_blank) ls0). startswith i q"
        by auto
      then show ?thesis by (rule foldl_common_prefix_greatest)
    qed
    from blank ded every greatest show ?thesis
      by (intro exI [of _ ?m]) blast
  qed
qed

lemma dedent_example:
  "dedent (''  query {'' @ [newline] @ ''    a'' @ [newline] @ [newline] @ ''  }'')
     = ''query {'' @ [newline] @ ''  a'' @ [newline] @ [newline] @ ''}''"
  by (simp add: dedent_def newline_def blank_out_def is_blank_def indents_def margin_step_def
        strip_margin_def)

subsection \<open>Sending and starting\<close>

text \<open>
  Claim C6. For every combination of arguments, \<^verbatim>\<open>gql_send\<close> hands the transport one
  message holding exactly the fields among \<^verbatim>\<open>id\<close>, \<^verbatim>\<open>type\<close> and \<^verbatim>\<open>payload\<close> that are not
  \<^verbatim>\<open>None\<close>, each with the value given, and no other key; it returns the identifier used,
  which is the next identifier minted when \<^verbatim>\<open>id\<close> was not supplied (and then the message
  carries it). With all three supplied the message is exactly those three fields; with
  none supplied and \<^verbatim>\<open>id=None\<close> it is empty.
\<close>

theorem send_message_fields:
  "gql_send msg_id msg_type payload s =
     (Returns (case msg_id of AUTO \<Rightarrow> Some (uuids s (minted s)) | PyNone \<Rightarrow> None
               | Ident i \<Rightarrow> Some i),
      (case msg_id of AUTO \<Rightarrow> s\<lparr>minted := Suc (minted s)\<rparr> | PyNone \<Rightarrow> s | Ident i \<Rightarrow> s)
        \<lparr>calls := calls s @
           [Send ((case msg_id of AUTO \<Rightarrow> [(''id'', JStr (uuids s (minted s)))] | PyNone \<Rightarrow> []
                   | Ident i \<Rightarrow> [(''id'', JStr i)]) @
                  (case msg_type of None \<Rightarrow> [] | Some t \<Rightarrow> [(''type'', JStr t)]) @
                  (if payload = JNull then [] else [(''payload'', payload)]))]\<rparr>)
   \<and> (payload \<noteq> JNull \<longrightarrow>
        gql_send (Ident i) (Some t) payload s =
          (Returns (Some i),
           s\<lparr>calls := calls s @
               [Send [(''id'', JStr i), (''type'', JStr t), (''payload'', payload)]]\<rparr>))
   \<and> gql_send AUTO (Some t) JNull s =
        (Returns (Some (uuids s (minted s))),
         s\<lparr>calls := calls s @ [Send [(''id'', JStr (uuids s (minted s))), (''type'', JStr t)]],
           minted := Suc (minted s)\<rparr>)
   \<and> gql_send PyNone None JNull s = (Returns None, s\<lparr>calls := calls s @ [Send []]\<rparr>)"
  by (simp add: gql_send_result)

theorem send_message_fields_witness:
  "JDict [(''query'', JStr ''{ a }'')] \<noteq> JNull
   \<and> gql_send (Ident ''X'') (Some ''start'') (JDict [(''query'', JStr ''{ a }'')]) (start_world [])
      = (Returns (Some ''X''),
         (start_world [])
           \<lparr>calls := [Send [(''id'', JStr ''X''), (''type'', JStr ''start''),
                             (''payload'', JDict [(''query'', JStr ''{ a }'')])]]\<rparr>)
   \<and> gql_send AUTO None (JDict []) (start_world [])
      = (Returns (Some ''a''),
         (start_world [])
           \<lparr>calls := [Send [(''id'', JStr ''a''), (''payload'', JDict [])]], minted := 1\<rparr>)"
  using send_message_fields
    [where msg_id = AUTO and msg_type = None and payload = "JDict []" and s = "start_world []"]
    send_message_fields
    [where payload = "JDict [(''query'', JStr ''{ a }'')]" and i = "''X''" and t = "''start''"
       and s = "start_world []" and msg_id = "Ident ''X''" and msg_type = "Some ''start''"]
  by (simp add: start_world_def)

text \<open>What \<^verbatim>\<open>gql_start\<close> returns and sends.\<close>

lemma gql_start_result:
  "gql_start query variables s =
     (Returns (Some (uuids s (minted s))),
      s\<lparr>calls := calls s @
           [Send [(''id'', JStr (uuids s (minted s))), (''type'', JStr ''start''),
                  (''payload'',
                   JDict [(''query'', JStr (dedent query)),
                          (''variables'', if py_truthy variables then variables else JDict [])])]],
        minted := Suc (minted s)\<rparr>)"
  by (simp add: gql_start_def gql_send_result)

text \<open>
  Claim C8. \<^verbatim>\<open>gql_start(query, variables)\<close> sends one message of type \<^verbatim>\<open>"start"\<close> carrying a
  freshly minted identifier and the payload \<^verbatim>\<open>{query: dedent(query), variables: variables}\<close>:
  a mapping supplied as variables is sent as it is, the variables are the empty mapping
  when none are supplied (and for every other false value), and the call returns the
  identifier \<^verbatim>\<open>gql_send\<close> returned. The dedented query is the query with the lines of blanks
  emptied and the longest common leading run of spaces and tabs removed from the other
  lines.
\<close>

theorem start_exchange:
  "gql_start query variables s =
     (Returns (Some (uuids s (minted s))),
      s\<lparr>calls := calls s @
           [Send [(''id'', JStr (uuids s (minted s))), (''type'', JStr ''start''),
                  (''payload'',
                   JDict [(''query'', JStr (dedent query)),
                          (''variables'', if py_truthy variables then variables else JDict [])])]],
        minted := Suc (minted s)\<rparr>)
   \<and> gql_start query JNull s =
     (Returns (Some (uuids s (minted s))),
      s\<lparr>calls := calls s @
           [Send [(''id'', JStr (uuids s (minted s))), (''type'', JStr ''start''),
                  (''payload'',
                   JDict [(''query'', JStr (dedent query)), (''variables'', JDict [])])]],
        minted := Suc (minted s)\<rparr>)
   \<and> gql_start query (JDict vs) s =
     (Returns (Some (uuids s (minted s))),
      s\<lparr>calls := calls s @
           [Send [(''id'', JStr (uuids s (minted s))), (''type'', JStr ''start''),
                  (''payload'',
                   JDict [(''query'', JStr (dedent query)), (''variables'', JDict vs)])]],
        minted := Suc (minted s)\<rparr>)
   \<and> fst (gql_start query variables s)
       = fst (gql_send AUTO (Some ''start'')
                (JDict [(''query'', JStr (dedent query)),
                        (''variables'', if py_truthy variables then variables else JDict [])]) s)
   \<and> (\<exists>m. list_all is_blank m
         \<and> dedent query = join_lines (map (\<lambda>l. strip_margin m (blank_out l)) (split_lines query))
         \<and> (\<forall>l\<in>set (split_lines query). \<not> list_all is_blank l \<longrightarrow> startswith l m)
         \<and> (\<forall>q. list_all is_blank q
               \<and> (\<exists>l\<in>set (split_lines query). \<not> list_all is_blank l)
               \<and> (\<forall>l\<in>set (split_lines query). \<not> list_all is_blank l \<longrightarrow> startswith l q)
               \<longrightarrow> startswith m q))"
proof (intro conjI)
  show "fst (gql_start query variables s)
       = fst (gql_send AUTO (Some ''start'')
                (JDict [(''query'', JStr (dedent query)),
                        (''variables'', if py_truthy variables then variables else JDict [])]) s)"
    by (simp only: gql_start_def)
next
  show "gql_start query (JDict vs) s =
     (Returns (Some (uuids s (minted s))),
      s\<lparr>calls := calls s @
           [Send [(''id'', JStr (uuids s (minted s))), (''type'', JStr ''start''),
                  (''payload'',
                   JDict [(''query'', JStr (dedent query)), (''variables'', JDict vs)])]],
        minted := Suc (minted s)\<rparr>)"
    by (cases vs) (simp_all add: gql_start_result)
qed (use dedent_margin [of query] in \<open>simp_all add: gql_start_result\<close>)

theorem start_exchange_witness:
  "gql_start (''  query {'' @ [newline] @ ''    a'' @ [newline] @ [newline] @ ''  }'') JNull
     (start_world [])
   = (Returns (Some ''a''),
      (start_world [])
        \<lparr>calls :=
           [Send [(''id'', JStr ''a''), (''type'', JStr ''start''),
                  (''payload'',
                   JDict [(''query'',
                           JStr (''query {'' @ [newline] @ ''  a'' @ [newline] @ [newline] @ ''}'')),
                          (''variables'', JDict [])])]],
         minted := 1\<rparr>)
   \<and> gql_start (''  query {'' @ [newline] @ ''    a'' @ [newline] @ [newline] @ ''  }'')
       (JDict [(''n'', JNum 1)]) (start_world [])
   = (Returns (Some ''a''),
      (start_world [])
        \<lparr>calls :=
           [Send [(''id'', JStr ''a''), (''type'', JStr ''start''),
                  (''payload'',
                   JDict [(''query'',
                           JStr (''query {'' @ [newline] @ ''  a'' @ [newline] @ [newline] @ ''}'')),
                          (''variables'', JDict [(''n'', JNum 1)])])]],
         minted := 1\<rparr>)"
  using start_exchange
    [where query = "''  query {'' @ [newline] @ ''    a'' @ [newline] @ [newline] @ ''  }''"
       and variables = JNull and s = "start_world []" and vs = "[(''n'', JNum 1)]"]
    dedent_example
  by (simp add: start_world_def)

subsection \<open>Executing a query\<close>

text \<open>A receive that starts after the events \<open>done\<close> have been consumed.\<close>

lemma gql_receive_found_from:
  assumes "list_all (skipped wait_id) pre" and "answers wait_id m"
  shows "gql_receive wait_id (consumed done (pre @ Deliver d m # rest) s)
     = (response_payload m, consumed (done @ pre @ [Deliver d m]) rest s)"
proof -
  have "gql_receive wait_id (consumed done (pre @ Deliver d m # rest) s)
      = (response_payload m,
         consumed (pre @ [Deliver d m]) rest (consumed done (pre @ Deliver d m # rest) s))"
    using assms by (intro gql_receive_found) simp_all
  also have "consumed (pre @ [Deliver d m]) rest (consumed done (pre @ Deliver d m # rest) s)
      = consumed (done @ pre @ [Deliver d m]) rest s"
    using consumed_consumed [of "pre @ [Deliver d m]" rest "done" s] by simp
  finally show ?thesis .
qed

lemma consumed_Nil: "consumed [] (inbound s) s = s"
  by (simp add: consumed_def)

lemma inbound_gql_start [simp]: "inbound (snd (gql_start query variables s)) = inbound s"
  by (simp add: gql_start_result)

text \<open>
  Claim C7. \<^verbatim>\<open>gql_execute\<close> starts an exchange and receives twice by the identifier minted:
  when the stream holds, after messages that are passed over, a first answer with payload
  \<open>p1\<close> and, after more such messages, a second answer whose payload raises nothing, the
  call returns \<open>p1\<close>, the second payload is dropped, and exactly the events up to the
  second answer are consumed; the events after it stay. With nothing passed over these
  are two calls of \<^verbatim>\<open>receive\<close>; against a server that sends one data message and one
  complete message with the identifier, the data payload is returned and the stream is
  empty.
\<close>

theorem execute_two_receives:
  assumes "list_all (skipped (Some (uuids s (minted s)))) pre1"
    and "answers (Some (uuids s (minted s))) m1"
    and "response_payload m1 = Returns p1"
    and "list_all (skipped (Some (uuids s (minted s)))) pre2"
    and "answers (Some (uuids s (minted s))) m2"
    and "response_payload m2 = Returns p2"
    and "inbound s = pre1 @ Deliver d1 m1 # pre2 @ Deliver d2 m2 # rest"
  shows "gql_execute query variables s
     = (Returns p1,
        consumed (pre1 @ Deliver d1 m1 # pre2 @ [Deliver d2 m2]) rest
          (snd (gql_start query variables s)))
   \<and> inbound (snd (gql_execute query variables s)) = rest
   \<and> calls (snd (gql_execute query variables s))
       = calls (snd (gql_start query variables s))
         @ replicate (length pre1 + 1 + length pre2 + 1) Receive"
proof -
  let ?u = "uuids s (minted s)"
  obtain s1 where start: "gql_start query variables s = (Returns (Some ?u), s1)"
    by (simp add: gql_start_result)
  then have "inbound s1 = inbound s"
    using inbound_gql_start [of query variables s] by simp
  with assms(7) have inb: "inbound s1 = pre1 @ Deliver d1 m1 # pre2 @ Deliver d2 m2 # rest"
    by simp
  have first: "gql_receive (Some ?u) s1
      = (Returns p1, consumed (pre1 @ [Deliver d1 m1]) (pre2 @ Deliver d2 m2 # rest) s1)"
    using gql_receive_found [OF assms(1,2) inb] assms(3) by simp
  have second: "gql_receive (Some ?u)
        (consumed (pre1 @ [Deliver d1 m1]) (pre2 @ Deliver d2 m2 # rest) s1)
      = (Returns p2, consumed (pre1 @ Deliver d1 m1 # pre2 @ [Deliver d2 m2]) rest s1)"
    using gql_receive_found_from [OF assms(4,5), of "pre1 @ [Deliver d1 m1]" d2 rest s1]
      assms(6) by simp
  have "gql_execute query variables s
      = (Returns p1, consumed (pre1 @ Deliver d1 m1 # pre2 @ [Deliver d2 m2]) rest s1)"
    unfolding gql_execute_def by (simp add: start first second await_def)
  moreover have "snd (gql_start query variables s) = s1"
    by (simp add: start)
  ultimately show ?thesis
    by (simp add: consumed_def)
qed


theorem execute_two_receives_witness:
  "list_all (skipped (Some ''a'')) []
   \<and> answers (Some ''a'')
        [(''id'', JStr ''a''), (''type'', JStr ''data''),
         (''payload'', JDict [(''data'', JDict [(''x'', JNum 1)])])]
   \<and> response_payload
        [(''id'', JStr ''a''), (''type'', JStr ''data''),
         (''payload'', JDict [(''data'', JDict [(''x'', JNum 1)])])]
       = Returns (JDict [(''data'', JDict [(''x'', JNum 1)])])
   \<and> answers (Some ''a'') [(''id'', JStr ''a''), (''type'', JStr ''complete'')]
   \<and> response_payload [(''id'', JStr ''a''), (''type'', JStr ''complete'')] = Returns JNull
   \<and> gql_execute ''{ x }'' JNull
        (start_world
          [Deliver 1 [(''id'', JStr ''a''), (''type'', JStr ''data''),
                      (''payload'', JDict [(''data'', JDict [(''x'', JNum 1)])])],
           Deliver 2 [(''id'', JStr ''a''), (''type'', JStr ''complete'')]])
      = (Returns (JDict [(''data'', JDict [(''x'', JNum 1)])]),
         (start_world [])
           \<lparr>calls :=
              [Send [(''id'', JStr ''a''), (''type'', JStr ''start''),
                     (''payload'', JDict [(''query'', JStr (dedent ''{ x }'')),
                                          (''variables'', JDict [])])],
               Receive, Receive],
            clock := 3, minted := 1\<rparr>)"
  using execute_two_receives
    [where s = "start_world
          [Deliver 1 [(''id'', JStr ''a''), (''type'', JStr ''data''),
                      (''payload'', JDict [(''data'', JDict [(''x'', JNum 1)])])],
           Deliver 2 [(''id'', JStr ''a''), (''type'', JStr ''complete'')]]"
       and ?pre1.0 = "[]" and ?pre2.0 = "[]" and rest = "[]" and ?d1.0 = 1 and ?d2.0 = 2
       and ?m1.0 = "[(''id'', JStr ''a''), (''type'', JStr ''data''),
                      (''payload'', JDict [(''data'', JDict [(''x'', JNum 1)])])]"
       and ?m2.0 = "[(''id'', JStr ''a''), (''type'', JStr ''complete'')]"
       and ?p1.0 = "JDict [(''data'', JDict [(''x'', JNum 1)])]" and ?p2.0 = JNull
       and query = "''{ x }''" and variables = JNull]
  by (simp add: start_world_def answers_def is_keep_alive_response_def response_payload_def
        gql_start_result consumed_def)

text \<open>
  Claim C10. When the first answer to \<^verbatim>\<open>gql_execute\<close> carries a payload with an \<^verbatim>\<open>errors\<close>
  key, the call raises \<^verbatim>\<open>GraphqlWsResponseError\<close> at once: the events consumed are those
  up to that answer, there is no second receive, and everything after the answer, the
  complete message included, stays in the stream.
\<close>

theorem execute_error_leaves_complete:
  assumes "list_all (skipped (Some (uuids s (minted s)))) pre"
    and "answers (Some (uuids s (minted s))) m"
    and "map_of m ''payload'' = Some (JDict d)"
    and "map_of d ''errors'' = Some errs"
    and "inbound s = pre @ Deliver dl m # rest"
  shows "gql_execute query variables s
     = (Raises (GraphqlWsResponseError (JDict d) errs),
        consumed (pre @ [Deliver dl m]) rest (snd (gql_start query variables s)))
   \<and> inbound (snd (gql_execute query variables s)) = rest
   \<and> calls (snd (gql_execute query variables s))
       = calls (snd (gql_start query variables s)) @ replicate (length pre + 1) Receive"
proof -
  let ?u = "uuids s (minted s)"
  obtain s1 where start: "gql_start query variables s = (Returns (Some ?u), s1)"
    by (simp add: gql_start_result)
  then have "inbound s1 = inbound s"
    using inbound_gql_start [of query variables s] by simp
  with assms(5) have inb: "inbound s1 = pre @ Deliver dl m # rest"
    by simp
  have first: "gql_receive (Some ?u) s1
      = (Raises (GraphqlWsResponseError (JDict d) errs), consumed (pre @ [Deliver dl m]) rest s1)"
    using gql_receive_found [OF assms(1,2) inb] response_payload_errors [OF assms(3,4)] by simp
  have "gql_execute query variables s
      = (Raises (GraphqlWsResponseError (JDict d) errs), consumed (pre @ [Deliver dl m]) rest s1)"
    unfolding gql_execute_def by (simp add: start first await_def)
  moreover have "snd (gql_start query variables s) = s1"
    by (simp add: start)
  ultimately show ?thesis
    by (simp add: consumed_def)
qed

theorem execute_error_leaves_complete_witness:
  "list_all (skipped (Some ''a'')) [Deliver 1 [(''type'', JStr ''ka'')]]
   \<and> answers (Some ''a'')
        [(''id'', JStr ''a''), (''type'', JStr ''data''),
         (''payload'', JDict [(''errors'', JList [JStr ''boom''])])]
   \<and> gql_execute ''{ x }'' JNull
        (start_world
          [Deliver 1 [(''type'', JStr ''ka'')],
           Deliver 2 [(''id'', JStr ''a''), (''type'', JStr ''data''),
                      (''payload'', JDict [(''errors'', JList [JStr ''boom''])])],
           Deliver 4 [(''id'', JStr ''a''), (''type'', JStr ''complete'')]])
      = (Raises (GraphqlWsResponseError (JDict [(''errors'', JList [JStr ''boom''])])
                   (JList [JStr ''boom''])),
         (start_world [Deliver 4 [(''id'', JStr ''a''), (''type'', JStr ''complete'')]])
           \<lparr>calls :=
              [Send [(''id'', JStr ''a''), (''type'', JStr ''start''),
                     (''payload'', JDict [(''query'', JStr (dedent ''{ x }'')),
                                          (''variables'', JDict [])])],
               Receive, Receive],
            clock := 3, minted := 1\<rparr>)"
  using execute_error_leaves_complete
    [where s = "start_world
          [Deliver 1 [(''type'', JStr ''ka'')],
           Deliver 2 [(''id'', JStr ''a''), (''type'', JStr ''data''),
                      (''payload'', JDict [(''errors'', JList [JStr ''boom''])])],
           Deliver 4 [(''id'', JStr ''a''), (''type'', JStr ''complete'')]]"
       and pre = "[Deliver 1 [(''type'', JStr ''ka'')]]" and dl = 2
       and m = "[(''id'', JStr ''a''), (''type'', JStr ''data''),
                      (''payload'', JDict [(''errors'', JList [JStr ''boom''])])]"
       and d = "[(''errors'', JList [JStr ''boom''])]" and errs = "JList [JStr ''boom'']"
       and rest = "[Deliver 4 [(''id'', JStr ''a''), (''type'', JStr ''complete'')]]"
       and query = "''{ x }''" and variables = JNull]
  by (simp add: start_world_def answers_def is_keep_alive_response_def
        gql_start_result consumed_def)

subsection \<open>The budget of the bounded wait\<close>

lemma gql_receive_skip:
  "list_all (skipped wait_id) pre \<Longrightarrow> inbound s = pre @ rest \<Longrightarrow>
   gql_receive wait_id s = gql_receive wait_id (consumed pre rest s)"
  by (simp add: gql_receive_def next_response_skip [of wait_id pre s rest])

lemma gql_receive_Fault:
  "inbound s = Fault d e # es \<Longrightarrow> gql_receive wait_id s = (Raises e, consumed [Fault d e] es s)"
  by (simp add: gql_receive_def await_def next_response_Fault)

lemma clock_consumed [simp]: "clock (consumed pre rest s) = clock s + sum_list (map elapsed pre)"
  by (simp add: consumed_def)

text \<open>One round of the loop that does not end it.\<close>

lemma gql_wait_response_loop_round:
  assumes "unproductive_round response_checker r" and "float_pos fl timeout"
    and "inbound s = r @ rest"
  shows "gql_wait_response_loop fl response_checker timeout s
     = gql_wait_response_loop fl response_checker
         (float_sub fl timeout
            (float_sub fl (float_time fl (clock s + sum_list (map elapsed r)))
               (float_time fl (clock s))))
         (consumed r rest s)"
proof -
  from assms(1) have r: "r = butlast r @ [last r]"
    and kas: "list_all (skipped None) (butlast r)"
    and un: "unproductive response_checker (last r)"
    by (simp_all add: unproductive_round_def)
  let ?s1 = "consumed (butlast r) (last r # rest) s"
  have inb: "inbound s = butlast r @ last r # rest"
    using assms(3) r by (metis append.assoc append_Cons append_Nil)
  have skip: "gql_receive None s = gql_receive None ?s1"
    using kas inb by (rule gql_receive_skip)
  have fin: "consumed [last r] rest ?s1 = consumed r rest s"
    using consumed_consumed [of "[last r]" rest "butlast r" s] r by simp
  show ?thesis
  proof (cases "last r")
    case (Fault d e)
    with un have e: "e = TimeoutError" by simp
    have "gql_receive None s = (Raises TimeoutError, consumed r rest s)"
      using skip gql_receive_Fault [of ?s1 d e rest None] Fault e fin by simp
    then show ?thesis
      using assms(2) by (subst gql_wait_response_loop.simps) simp
  next
    case (Deliver d m)
    with un obtain p where p: "\<not> is_keep_alive_response m" "response_payload m = Returns p"
      "\<not> response_checker p"
      by (auto split: outcome.splits)
    have "gql_receive None ?s1 = (response_payload m, consumed ([] @ [Deliver d m]) rest ?s1)"
      using p(1) by (intro gql_receive_found) (simp_all add: answers_def Deliver)
    then have "gql_receive None s = (Returns p, consumed r rest s)"
      using skip p(2) fin Deliver by simp
    then show ?thesis
      using assms(2) p(3) by (subst gql_wait_response_loop.simps) simp
  qed
qed

text \<open>Any number of such rounds, as long as budget remains before each of them.\<close>

lemma gql_wait_response_loop_rounds:
  assumes "list_all (unproductive_round response_checker) rounds"
    and "\<forall>j<length rounds. float_pos fl (remaining fl timeout (clock s) (take j rounds))"
    and "inbound s = concat rounds @ rest"
  shows "gql_wait_response_loop fl response_checker timeout s
     = gql_wait_response_loop fl response_checker (remaining fl timeout (clock s) rounds)
         (consumed (concat rounds) rest s)"
  using assms
proof (induction rounds arbitrary: timeout s)
  case Nil
  then have "consumed [] rest s = s" by (simp add: consumed_def)
  then show ?case by simp
next
  case (Cons r rounds)
  let ?c1 = "clock s + sum_list (map elapsed r)"
  let ?t1 = "float_sub fl timeout (float_sub fl (float_time fl ?c1) (float_time fl (clock s)))"
  let ?s1 = "consumed r (concat rounds @ rest) s"
  from Cons.prems(2) have pos: "float_pos fl timeout" by auto
  have budget: "\<forall>j<length rounds. float_pos fl (remaining fl ?t1 (clock ?s1) (take j rounds))"
  proof (intro allI impI)
    fix j assume "j < length rounds"
    then have "Suc j < length (r # rounds)" by simp
    with Cons.prems(2)
    have "float_pos fl (remaining fl timeout (clock s) (take (Suc j) (r # rounds)))"
      by blast
    then show "float_pos fl (remaining fl ?t1 (clock ?s1) (take j rounds))" by simp
  qed
  have "gql_wait_response_loop fl response_checker timeout s
      = gql_wait_response_loop fl response_checker ?t1 ?s1"
    using Cons.prems(1,3) pos by (intro gql_wait_response_loop_round) simp_all
  also have "\<dots> = gql_wait_response_loop fl response_checker
      (remaining fl ?t1 (clock ?s1) rounds) (consumed (concat rounds) rest ?s1)"
    using Cons.prems(1) budget by (intro Cons.IH) simp_all
  also have "consumed (concat rounds) rest ?s1 = consumed (concat (r # rounds)) rest s"
    using consumed_consumed [of "concat rounds" rest r s] by simp
  also have "remaining fl ?t1 (clock ?s1) rounds = remaining fl timeout (clock s) (r # rounds)"
    by simp
  finally show ?case .
qed

text \<open>Evaluating \<^const>\<open>binary64\<close>: the binade of \<open>x\<close> fixes the unit in the last place.\<close>

lemma binary64_at:
  assumes "2 powi k \<le> \<bar>x\<bar>" and "\<bar>x\<bar> < 2 powi (k + 1)"
  shows "binary64 x = of_int (round_half_even (x / 2 powi (max (k - 52) (- 1074))))
           * 2 powi (max (k - 52) (- 1074))"
proof -
  have pos: "0 < \<bar>x\<bar>"
    using assms(1) by (smt (verit) zero_less_power_int)
  have "2 powr real_of_int k = (2::real) powi k"
    by (simp add: powr_real_of_int')
  moreover have "2 powr (real_of_int k + 1) = (2::real) powi (k + 1)"
    using powr_real_of_int' [of "2::real" "k + 1"] by simp
  ultimately have "2 powr real_of_int k \<le> \<bar>x\<bar>" "\<bar>x\<bar> < 2 powr (real_of_int k + 1)"
    using assms by (simp_all add: add.commute)
  then have "\<lfloor>log 2 \<bar>x\<bar>\<rfloor> = k"
    using pos by (simp add: floor_log_eq_powr_iff)
  with pos show ?thesis
    by (simp add: binary64_def Let_def)
qed

lemma float_pos_ieee [simp]: "float_pos ieee_floats a \<longleftrightarrow> 0 < a"
  by (simp add: ieee_floats_def)

lemma binary64_0 [simp]: "binary64 0 = 0"
  by (simp add: binary64_def)

text \<open>Doubles with a short significand, on which nothing is rounded.\<close>

lemma binary64_quarter: "binary64 (1 / 4) = 1 / 4"
  by (subst binary64_at [where k = "- 2"]) (simp_all add: round_half_even_def)

lemma binary64_five_eighths: "binary64 (5 / 8) = 5 / 8"
  by (subst binary64_at [where k = "- 1"]) (simp_all add: round_half_even_def)

lemma binary64_three_eighths: "binary64 (3 / 8) = 3 / 8"
  by (subst binary64_at [where k = "- 2"]) (simp_all add: round_half_even_def)

lemma binary64_minus_eighth: "binary64 (- (1 / 8)) = - (1 / 8)"
  by (subst binary64_at [where k = "- 3"]) (simp_all add: round_half_even_def)

lemma remaining_dyadic:
  "remaining ieee_floats (1 / 2) 0 [[Fault (1 / 4) TimeoutError]] = 1 / 4"
  "remaining ieee_floats (1 / 2) 0
     [[Fault (1 / 4) TimeoutError],
      [Deliver (1 / 8) [(''type'', JStr ''ka'')],
       Deliver (1 / 4) [(''id'', JStr ''X''), (''payload'', JDict [(''data'', JNum 1)])]]]
   = - (1 / 8)"
  by (simp_all add: ieee_floats_def binary64_quarter binary64_five_eighths
        binary64_three_eighths binary64_minus_eighth)

text \<open>
  The doubles nearest to 2.52, 0.07 and 0.77 are \<open>5674535530486825 / 2 ^ 51\<close>,
  \<open>1261007895663739 / 2 ^ 54\<close> and \<open>1733885856537641 / 2 ^ 51\<close>. With the budget 2.52 and the
  clock read at 0.0, 0.07, 0.77 and 2.52, the two subtractions that round leave
  \<open>1 / 2 ^ 52\<close> of the budget after the third round, where exact arithmetic leaves nothing.
\<close>

lemma binary64_doubles:
  "binary64 (5674535530486825 / 2251799813685248) = 5674535530486825 / 2251799813685248"
  "binary64 (1261007895663739 / 18014398509481984) = 1261007895663739 / 18014398509481984"
  "binary64 (1733885856537641 / 2251799813685248) = 1733885856537641 / 2251799813685248"
  "binary64 (7881299347898369 / 4503599627370496) = 7881299347898369 / 4503599627370496"
  "binary64 (7 / 4) = 7 / 4"
  "binary64 (1 / 4503599627370496) = 1 / 4503599627370496"
  by (subst binary64_at [where k = 1], simp_all add: round_half_even_def)
     (subst binary64_at [where k = "- 4"], simp_all add: round_half_even_def,
      subst binary64_at [where k = "- 1"], simp_all add: round_half_even_def,
      subst binary64_at [where k = 0], simp_all add: round_half_even_def,
      subst binary64_at [where k = 0], simp_all add: round_half_even_def,
      subst binary64_at [where k = "- 52"], simp_all add: round_half_even_def)

lemma binary64_rounds:
  "binary64 (44135276348230861 / 18014398509481984) = 2758454771764429 / 1125899906842624"
  "binary64 (12610078956637389 / 18014398509481984) = 3152519739159347 / 4503599627370496"
  by (subst binary64_at [where k = 1], simp_all add: round_half_even_def)
     (subst binary64_at [where k = "- 1"], simp_all add: round_half_even_def)

lemma remaining_ulp:
  "remaining ieee_floats (5674535530486825 / 2251799813685248) 0
     [[Fault (1261007895663739 / 18014398509481984) TimeoutError]]
   = 2758454771764429 / 1125899906842624"
  "remaining ieee_floats (5674535530486825 / 2251799813685248) 0
     [[Fault (1261007895663739 / 18014398509481984) TimeoutError],
      [Fault (12610078956637389 / 18014398509481984) TimeoutError]]
   = 7881299347898369 / 4503599627370496"
  "remaining ieee_floats (5674535530486825 / 2251799813685248) 0
     [[Fault (1261007895663739 / 18014398509481984) TimeoutError],
      [Fault (12610078956637389 / 18014398509481984) TimeoutError],
      [Deliver (7 / 4) [(''id'', JStr ''X''), (''payload'', JDict [(''data'', JNum 1)])]]]
   = 1 / 4503599627370496"
  by (simp_all add: ieee_floats_def binary64_doubles binary64_rounds)

text \<open>
  Claim C4. \<^verbatim>\<open>gql_wait_response\<close> keeps one budget, the \<^verbatim>\<open>timeout\<close> given or the constant
  \<^verbatim>\<open>TIMEOUT\<close> when none is given, and every round of its loop takes from it the time the
  round has taken, as the floats compute it. Over rounds that end with a timeout of the
  transport or with a response the checker refuses, and as long as the budget was
  positive before each round: once what remains of the budget is no longer positive the
  call raises \<^verbatim>\<open>TimeoutError\<close>, whether the last round ended with a timeout or with a
  message; while what remains is positive the timeouts are passed over, polling goes on,
  and the next response the checker accepts is returned. This holds for every arithmetic
  of floats.
\<close>

theorem wait_response_budget:
  assumes "list_all (unproductive_round response_checker) rounds"
    and "\<forall>j<length rounds. float_pos fl (remaining fl budget (clock s) (take j rounds))"
    and "budget = (case timeout of None \<Rightarrow> TIMEOUT | Some t \<Rightarrow> t)"
  shows "(\<not> float_pos fl (remaining fl budget (clock s) rounds) \<longrightarrow>
            gql_wait_response fl TIMEOUT response_checker timeout
              (s\<lparr>inbound := concat rounds @ rest\<rparr>)
            = (Raises TimeoutError, consumed (concat rounds) rest s))
       \<and> (float_pos fl (remaining fl budget (clock s) rounds) \<and> list_all (skipped None) kas \<and>
          answers None m \<and> response_payload m = Returns p \<and> response_checker p \<longrightarrow>
            gql_wait_response fl TIMEOUT response_checker timeout
              (s\<lparr>inbound := concat rounds @ kas @ Deliver d m # rest\<rparr>)
            = (Returns p, consumed (concat rounds @ kas @ [Deliver d m]) rest s))"
proof (intro conjI impI)
  let ?left = "remaining fl budget (clock s) rounds"
  assume over: "\<not> float_pos fl ?left"
  let ?s0 = "s\<lparr>inbound := concat rounds @ rest\<rparr>"
  have "gql_wait_response_loop fl response_checker budget ?s0
      = gql_wait_response_loop fl response_checker (remaining fl budget (clock ?s0) rounds)
          (consumed (concat rounds) rest ?s0)"
    using assms(1,2) by (intro gql_wait_response_loop_rounds) simp_all
  also have "\<dots> = (Raises TimeoutError, consumed (concat rounds) rest ?s0)"
    using over by (subst gql_wait_response_loop.simps) simp
  finally show "gql_wait_response fl TIMEOUT response_checker timeout ?s0
      = (Raises TimeoutError, consumed (concat rounds) rest s)"
    using assms(3) by (simp add: gql_wait_response_def)
next
  let ?left = "remaining fl budget (clock s) rounds"
  assume a: "float_pos fl ?left \<and> list_all (skipped None) kas \<and> answers None m \<and>
    response_payload m = Returns p \<and> response_checker p"
  let ?s0 = "s\<lparr>inbound := concat rounds @ kas @ Deliver d m # rest\<rparr>"
  let ?s1 = "consumed (concat rounds) (kas @ Deliver d m # rest) ?s0"
  have "gql_wait_response_loop fl response_checker budget ?s0
      = gql_wait_response_loop fl response_checker (remaining fl budget (clock ?s0) rounds) ?s1"
    using assms(1,2) by (intro gql_wait_response_loop_rounds) simp_all
  moreover have "gql_receive None ?s1
      = (response_payload m, consumed (concat rounds @ kas @ [Deliver d m]) rest ?s0)"
    using a by (intro gql_receive_found_from) simp_all
  then have "gql_wait_response_loop fl response_checker (remaining fl budget (clock ?s0) rounds) ?s1
      = (Returns p, consumed (concat rounds @ kas @ [Deliver d m]) rest ?s0)"
    using a by (subst gql_wait_response_loop.simps) simp
  ultimately show "gql_wait_response fl TIMEOUT response_checker timeout ?s0
      = (Returns p, consumed (concat rounds @ kas @ [Deliver d m]) rest s)"
    using assms(3) by (simp add: gql_wait_response_def)
qed

theorem wait_response_budget_witness:
  "list_all (unproductive_round (\<lambda>p. p = JDict [(''data'', JNum 2)]))
     [[Fault (1 / 4) TimeoutError],
      [Deliver (1 / 8) [(''type'', JStr ''ka'')],
       Deliver (1 / 4) [(''id'', JStr ''X''), (''payload'', JDict [(''data'', JNum 1)])]]]
   \<and> float_pos ieee_floats (1 / 2)
   \<and> float_pos ieee_floats
        (remaining ieee_floats (1 / 2) 0 [[Fault (1 / 4) TimeoutError]])
   \<and> \<not> float_pos ieee_floats
        (remaining ieee_floats (1 / 2) 0
           [[Fault (1 / 4) TimeoutError],
            [Deliver (1 / 8) [(''type'', JStr ''ka'')],
             Deliver (1 / 4) [(''id'', JStr ''X''), (''payload'', JDict [(''data'', JNum 1)])]]])
   \<and> gql_wait_response ieee_floats 60 (\<lambda>p. p = JDict [(''data'', JNum 2)]) (Some (1 / 2))
        (start_world
          [Fault (1 / 4) TimeoutError,
           Deliver (1 / 8) [(''type'', JStr ''ka'')],
           Deliver (1 / 4) [(''id'', JStr ''X''), (''payload'', JDict [(''data'', JNum 1)])],
           Deliver (1 / 8) [(''id'', JStr ''X''), (''payload'', JDict [(''data'', JNum 2)])]])
      = (Raises TimeoutError,
         (start_world
           [Deliver (1 / 8) [(''id'', JStr ''X''), (''payload'', JDict [(''data'', JNum 2)])]])
           \<lparr>calls := [Receive, Receive, Receive], clock := 5 / 8\<rparr>)
   \<and> float_pos ieee_floats
        (remaining ieee_floats (5674535530486825 / 2251799813685248) 0
           [[Fault (1261007895663739 / 18014398509481984) TimeoutError],
            [Fault (12610078956637389 / 18014398509481984) TimeoutError],
            [Deliver (7 / 4) [(''id'', JStr ''X''), (''payload'', JDict [(''data'', JNum 1)])]]])
   \<and> gql_wait_response ieee_floats (5674535530486825 / 2251799813685248)
        (\<lambda>p. p = JDict [(''data'', JNum 2)]) None
        (start_world
          [Fault (1261007895663739 / 18014398509481984) TimeoutError,
           Fault (12610078956637389 / 18014398509481984) TimeoutError,
           Deliver (7 / 4) [(''id'', JStr ''X''), (''payload'', JDict [(''data'', JNum 1)])],
           Deliver (1 / 8) [(''id'', JStr ''X''), (''payload'', JDict [(''data'', JNum 2)])]])
      = (Returns (JDict [(''data'', JNum 2)]),
         (start_world [])
           \<lparr>calls := [Receive, Receive, Receive, Receive],
            clock := 5956010507197481 / 2251799813685248\<rparr>)"
  using wait_response_budget
    [where fl = ieee_floats and response_checker = "\<lambda>p. p = JDict [(''data'', JNum 2)]"
       and rounds = "[[Fault (1 / 4) TimeoutError],
          [Deliver (1 / 8) [(''type'', JStr ''ka'')],
           Deliver (1 / 4) [(''id'', JStr ''X''), (''payload'', JDict [(''data'', JNum 1)])]]]"
       and budget = "1 / 2" and timeout = "Some (1 / 2)" and TIMEOUT = 60
       and s = "start_world []"
       and rest = "[Deliver (1 / 8)
          [(''id'', JStr ''X''), (''payload'', JDict [(''data'', JNum 2)])]]"]
    wait_response_budget
    [where fl = ieee_floats and response_checker = "\<lambda>p. p = JDict [(''data'', JNum 2)]"
       and rounds = "[[Fault (1261007895663739 / 18014398509481984) TimeoutError],
            [Fault (12610078956637389 / 18014398509481984) TimeoutError],
            [Deliver (7 / 4) [(''id'', JStr ''X''), (''payload'', JDict [(''data'', JNum 1)])]]]"
       and budget = "5674535530486825 / 2251799813685248" and timeout = None
       and TIMEOUT = "5674535530486825 / 2251799813685248"
       and s = "start_world []" and kas = "[]" and d = "1 / 8"
       and m = "[(''id'', JStr ''X''), (''payload'', JDict [(''data'', JNum 2)])]"
       and p = "JDict [(''data'', JNum 2)]" and rest = "[]"]
    remaining_dyadic remaining_ulp
  by (simp add: start_world_def unproductive_round_def is_keep_alive_response_def
        response_payload_def answers_def consumed_def less_Suc_eq)

end
